theory Spec2Isabelle
  imports Complex_Main
begin

section \<open>Tensors and the operations of the tensor library\<close>

text \<open>
  The module \<^verbatim>\<open>egnn.py\<close> defines three classes: \<^verbatim>\<open>RFF\<close>, \<^verbatim>\<open>EGNNLayer\<close> and
  \<^verbatim>\<open>EGNN_Full\<close>. They are written against a tensor library and a graph library, whose
  operations are modelled here to the extent that the three classes use them.

  A rank-2 tensor is a list of rows. Scalars are idealised as real numbers: rounding,
  infinities and NaN of floating point are outside the model. Sizes and node indices
  are natural numbers. Every exception a call can raise is a value of \<open>error\<close>.
  Where two shapes disagree the model reports \<open>ShapeError\<close>; the broadcasting of a
  dimension of size one is not modelled.
\<close>

type_synonym vec = "real list"
type_synonym matrix = "real list list"

datatype error = KeyError string | TypeError | ValueError | IndexError | ShapeError
  | AttributeError

definition dot :: "vec \<Rightarrow> vec \<Rightarrow> real" where
  "dot u v = sum_list (map2 (*) u v)"

definition vadd :: "vec \<Rightarrow> vec \<Rightarrow> vec" where
  "vadd u v = map2 (+) u v"

definition same_shape :: "matrix \<Rightarrow> matrix \<Rightarrow> bool" where
  "same_shape a b = (map length a = map length b)"

text \<open>\<^verbatim>\<open>F.linear(x, W)\<close>: each row of \<open>x\<close> times the transpose of \<open>W\<close>.\<close>

definition F_linear :: "matrix \<Rightarrow> matrix \<Rightarrow> error + matrix" where
  "F_linear x W =
     (if list_all (\<lambda>r. list_all (\<lambda>w. length r = length w) W) x
      then Inr (map (\<lambda>r. map (\<lambda>w. dot w r) W) x)
      else Inl ShapeError)"

text \<open>\<^verbatim>\<open>torch.cat([a, b], dim=-1)\<close> on two rank-2 tensors.\<close>

definition cat_cols :: "matrix \<Rightarrow> matrix \<Rightarrow> error + matrix" where
  "cat_cols a b = (if length a = length b then Inr (map2 (@) a b) else Inl ShapeError)"

text \<open>Indexing the rows of a tensor by a tensor of indices.\<close>

definition index_select :: "'a list \<Rightarrow> nat list \<Rightarrow> error + 'a list" where
  "index_select h idx =
     (if list_all (\<lambda>i. i < length h) idx then Inr (map (nth h) idx) else Inl IndexError)"

text \<open>
  \<^verbatim>\<open>torch.where(mask.unsqueeze(-1), a, b)\<close>: row \<open>i\<close> of the result is row \<open>i\<close> of
  \<open>a\<close> where the mask holds and row \<open>i\<close> of \<open>b\<close> where it does not.
\<close>

definition torch_where :: "bool list \<Rightarrow> matrix \<Rightarrow> matrix \<Rightarrow> error + matrix" where
  "torch_where c a b =
     (if length c = length a \<and> same_shape a b
      then Inr (map (\<lambda>(m, u, v). if m then u else v) (zip c (zip a b)))
      else Inl ShapeError)"

text \<open>Elementwise sum of two tensors, \<^verbatim>\<open>a + b\<close>.\<close>

definition tensor_add :: "matrix \<Rightarrow> matrix \<Rightarrow> error + matrix" where
  "tensor_add a b = (if same_shape a b then Inr (map2 vadd a b) else Inl ShapeError)"

text \<open>
  Scatter with reduction by sum: row \<open>i\<close> of the result is the sum of the rows of
  \<open>src\<close> whose index is \<open>i\<close>, and the zero row when there is none.

  Modelled from the spec: the scatter and aggregation primitive of the graph library,
  which the spec gives as: group messages by destination node id, combine with the
  configured operator, default to zero for nodes with no incoming messages.
\<close>

definition rows_at :: "matrix \<Rightarrow> nat list \<Rightarrow> nat \<Rightarrow> matrix" where
  "rows_at src index i = map fst (filter (\<lambda>(m, t). t = i) (zip src index))"

definition scatter_sum :: "matrix \<Rightarrow> nat list \<Rightarrow> nat \<Rightarrow> nat \<Rightarrow> matrix" where
  "scatter_sum src index dim_size width =
     map (\<lambda>i. foldr vadd (rows_at src index i) (replicate width 0)) [0..<dim_size]"

text \<open>
  The same with the configured operator in place of the sum. The operator \<open>reduce\<close>
  combines the rows that share an index, of which there is at least one.

  Modelled from the spec: the aggregation of the graph library, in the same words of the
  spec: combine with the configured operator, default to zero for nodes with no incoming
  messages.
\<close>

definition aggregate :: "(matrix \<Rightarrow> vec) \<Rightarrow> matrix \<Rightarrow> nat list \<Rightarrow> nat \<Rightarrow> nat \<Rightarrow> matrix" where
  "aggregate reduce src index dim_size width =
     map (\<lambda>i. if rows_at src index i = [] then replicate width 0
               else reduce (rows_at src index i)) [0..<dim_size]"

text \<open>
  Operators of the graph library, and the names it resolves them from. The constructors
  below take the resolver of the library as a parameter; \<open>lib_aggr\<close> is a resolver that
  knows these five names.
\<close>

definition sum_rows :: "matrix \<Rightarrow> vec" where
  "sum_rows ms = foldr vadd (butlast ms) (last ms)"

definition mean_rows :: "matrix \<Rightarrow> vec" where
  "mean_rows ms = map (\<lambda>a. a / real (length ms)) (sum_rows ms)"

definition max_rows :: "matrix \<Rightarrow> vec" where
  "max_rows ms = foldr (map2 max) (butlast ms) (last ms)"

definition min_rows :: "matrix \<Rightarrow> vec" where
  "min_rows ms = foldr (map2 min) (butlast ms) (last ms)"

definition lib_aggr :: "string \<Rightarrow> (matrix \<Rightarrow> vec) option" where
  "lib_aggr = map_of [(''add'', sum_rows), (''sum'', sum_rows), (''mean'', mean_rows),
                      (''max'', max_rows), (''min'', min_rows)]"

section \<open>Sub-layers of the neural-network library\<close>

text \<open>
  The sub-layers that the source places in its \<^verbatim>\<open>nn.Sequential\<close> containers. A linear
  layer holds its weight (one row per output feature) and bias. The normalisation layers
  hold their affine parameters; batch normalisation also holds its buffers
  \<^verbatim>\<open>running_mean\<close>, \<^verbatim>\<open>running_var\<close> and \<^verbatim>\<open>num_batches_tracked\<close>, and its training
  flag. In training mode a call of batch normalisation changes its buffers, so the call
  of a sub-layer returns the sub-layer as it is afterwards, beside the result or the
  error.
\<close>

datatype module =
    Linear matrix vec
  | LayerNorm nat vec vec
  | BatchNorm1d nat vec vec vec vec nat bool
  | Identity
  | ReLU
  | SiLU

definition eps :: real where
  "eps = 1 / 100000"

definition momentum :: real where
  "momentum = 1 / 10"

definition mean :: "vec \<Rightarrow> real" where
  "mean v = sum_list v / real (length v)"

definition variance :: "vec \<Rightarrow> real" where
  "variance v = mean (map (\<lambda>a. (a - mean v)\<^sup>2) v)"

definition normalise :: "vec \<Rightarrow> vec \<Rightarrow> vec \<Rightarrow> vec \<Rightarrow> vec \<Rightarrow> vec" where
  "normalise mu var gamma beta r =
     map (\<lambda>(a, m, s, g, b). (a - m) / sqrt (s + eps) * g + b)
       (zip r (zip mu (zip var (zip gamma beta))))"

definition column :: "matrix \<Rightarrow> nat \<Rightarrow> vec" where
  "column x j = map (\<lambda>r. r ! j) x"

text \<open>
  Batch normalisation in training mode counts the batch first, refuses a batch of one
  row, normalises by the mean and the biased variance of the batch, and moves the running
  statistics towards the mean and the unbiased variance of the batch. In evaluation mode
  it normalises by the running statistics and changes nothing.
\<close>

definition running_update :: "vec \<Rightarrow> vec \<Rightarrow> vec" where
  "running_update running new = map2 (\<lambda>r v. (1 - momentum) * r + momentum * v) running new"

fun module_forward :: "module \<Rightarrow> matrix \<Rightarrow> (error + matrix) \<times> module" where
  "module_forward (Linear W b) x =
     ((case F_linear x W of
         Inl e \<Rightarrow> Inl e
       | Inr y \<Rightarrow> Inr (map (\<lambda>r. vadd r b) y)),
      Linear W b)"
| "module_forward (LayerNorm d gamma beta) x =
     ((if list_all (\<lambda>r. length r = d) x
       then Inr (map (\<lambda>r. normalise (replicate d (mean r)) (replicate d (variance r))
                             gamma beta r) x)
       else Inl ShapeError),
      LayerNorm d gamma beta)"
| "module_forward (BatchNorm1d d gamma beta running_mean running_var num_batches_tracked
       training) x =
     (if training then
        (if length x = 1
         then (Inl ValueError,
               BatchNorm1d d gamma beta running_mean running_var (Suc num_batches_tracked) True)
         else if list_all (\<lambda>r. length r = d) x
         then
           (let mu = map (\<lambda>j. mean (column x j)) [0..<d];
                var = map (\<lambda>j. variance (column x j)) [0..<d];
                unbiased = map (\<lambda>v. v * real (length x) / (real (length x) - 1)) var
            in (Inr (map (normalise mu var gamma beta) x),
                BatchNorm1d d gamma beta (running_update running_mean mu)
                  (running_update running_var unbiased) (Suc num_batches_tracked) True))
         else (Inl ShapeError,
               BatchNorm1d d gamma beta running_mean running_var (Suc num_batches_tracked) True))
      else
        ((if list_all (\<lambda>r. length r = d) x
          then Inr (map (normalise running_mean running_var gamma beta) x)
          else Inl ShapeError),
         BatchNorm1d d gamma beta running_mean running_var num_batches_tracked False))"
| "module_forward Identity x = (Inr x, Identity)"
| "module_forward ReLU x = (Inr (map (map (\<lambda>a. max 0 a)) x), ReLU)"
| "module_forward SiLU x = (Inr (map (map (\<lambda>a. a / (1 + exp (- a)))) x), SiLU)"

text \<open>
  \<^verbatim>\<open>nn.Sequential\<close>: the sub-layers in order, stopping at the first error. The
  sub-layers that were called are returned as they are afterwards.
\<close>

fun Sequential_forward :: "module list \<Rightarrow> matrix \<Rightarrow> (error + matrix) \<times> module list" where
  "Sequential_forward [] x = (Inr x, [])"
| "Sequential_forward (m # ms) x =
     (case module_forward m x of
        (Inl e, m1) \<Rightarrow> (Inl e, m1 # ms)
      | (Inr y, m1) \<Rightarrow>
          (case Sequential_forward ms y of
             (r, ms1) \<Rightarrow> (r, m1 # ms1)))"

text \<open>
  Construction draws the initial parameters from the library's random generator. The
  generator is a stream \<open>rng\<close> of reals read from a position \<open>p\<close>; a constructor
  returns the position after its draws.
\<close>

definition randn :: "(nat \<Rightarrow> real) \<Rightarrow> nat \<Rightarrow> nat \<Rightarrow> nat \<Rightarrow> matrix" where
  "randn rng p r c = map (\<lambda>i. map (\<lambda>j. rng (p + i * c + j)) [0..<c]) [0..<r]"

definition nn_Linear :: "(nat \<Rightarrow> real) \<Rightarrow> nat \<Rightarrow> nat \<Rightarrow> nat \<Rightarrow> module \<times> nat" where
  "nn_Linear rng p n_in n_out =
     (Linear (randn rng p n_out n_in) (map (\<lambda>j. rng (p + n_out * n_in + j)) [0..<n_out]),
      p + n_out * n_in + n_out)"

section \<open>RFF\<close>

record RFF =
  sigma :: real
  in_features :: nat
  out_features :: nat
  compensation :: nat
  B :: matrix

text \<open>
  \<^verbatim>\<open>RFF.__init__\<close>. \<^verbatim>\<open>int(out_features / 2)\<close> is \<open>out_features div 2\<close>. A \<open>sigma\<close>
  of \<^verbatim>\<open>None\<close> makes the product \<^verbatim>\<open>torch.randn(...) * sigma\<close> raise.
\<close>

definition RFF_init ::
  "(nat \<Rightarrow> real) \<Rightarrow> nat \<Rightarrow> nat \<Rightarrow> nat \<Rightarrow> real option \<Rightarrow> error + RFF \<times> nat" where
  "RFF_init rng p n_in n_out sg =
     (let comp = (if n_out mod 2 \<noteq> 0 then 1 else 0);
          rows = n_out div 2 + comp
      in case sg of
           None \<Rightarrow> Inl TypeError
         | Some s \<Rightarrow>
             Inr (\<lparr>sigma = s, in_features = n_in, out_features = n_out, compensation = comp,
                   B = map (map (\<lambda>v. v * s / sqrt 2)) (randn rng p rows n_in)\<rparr>,
                  p + rows * n_in))"

text \<open>\<^verbatim>\<open>RFF.forward\<close>.\<close>

definition RFF_forward :: "RFF \<Rightarrow> matrix \<Rightarrow> error + matrix" where
  "RFF_forward rff x =
     (case F_linear x (B rff) of
        Inl e \<Rightarrow> Inl e
      | Inr y \<Rightarrow>
          (let z = map (\<lambda>r. map sin r @ map cos r) y
           in Inr (if compensation rff \<noteq> 0 then map butlast z else z)))"

section \<open>EGNNLayer\<close>

text \<open>
  A Python dictionary literal indexed by a key: a missing key raises \<^verbatim>\<open>KeyError\<close>.
\<close>

definition dict_get :: "(string \<times> 'a) list \<Rightarrow> string \<Rightarrow> error + 'a" where
  "dict_get d k = (case map_of d k of None \<Rightarrow> Inl (KeyError k) | Some v \<Rightarrow> Inr v)"

datatype norm_class = LayerNorm_cls | BatchNorm1d_cls | Identity_cls

text \<open>Calling a normalisation class with the feature width, \<^verbatim>\<open>self.norm(emb_dim)\<close>.\<close>

fun make_norm :: "norm_class \<Rightarrow> nat \<Rightarrow> module" where
  "make_norm LayerNorm_cls d = LayerNorm d (replicate d 1) (replicate d 0)"
| "make_norm BatchNorm1d_cls d =
     BatchNorm1d d (replicate d 1) (replicate d 0) (replicate d 0) (replicate d 1) 0 True"
| "make_norm Identity_cls d = Identity"

definition activation_table :: "(string \<times> module) list" where
  "activation_table = [(''swish'', SiLU), (''relu'', ReLU)]"

definition norm_table :: "(string \<times> norm_class) list" where
  "norm_table = [(''layer'', LayerNorm_cls), (''batch'', BatchNorm1d_cls), (''none'', Identity_cls)]"

text \<open>
  The constructor of the base class, \<^verbatim>\<open>super().__init__(aggr=aggr)\<close>, resolves the name
  of the aggregation to an operator of the graph library and raises \<^verbatim>\<open>ValueError\<close> for
  a name the library does not know. Which names the library knows is not the source's to
  say: the resolver of the library is the parameter \<open>resolver\<close> of the constructors.
\<close>

definition resolve_aggr ::
  "(string \<Rightarrow> (matrix \<Rightarrow> vec) option) \<Rightarrow> string \<Rightarrow> error + (matrix \<Rightarrow> vec)" where
  "resolve_aggr resolver a =
     (case resolver a of None \<Rightarrow> Inl ValueError | Some reduce \<Rightarrow> Inr reduce)"

record EGNNLayer =
  aggr :: string
  aggr_module :: "matrix \<Rightarrow> vec"
  emb_dim :: nat
  activation :: module
  norm_cls :: norm_class
  RFF_dim :: "nat option"
  RFF_sigma :: "real option"
  mask :: "bool list option"
  mlp_msg :: "module list"
  mlp_upd :: "module list"
  RFF_mod :: "RFF option"

text \<open>
  \<^verbatim>\<open>EGNNLayer.__init__\<close>. The attribute \<^verbatim>\<open>self.RFF\<close> (here \<open>RFF_mod\<close>) exists only
  when \<^verbatim>\<open>RFF_dim\<close> is not \<^verbatim>\<open>None\<close>.
\<close>

definition EGNNLayer_init ::
  "(string \<Rightarrow> (matrix \<Rightarrow> vec) option) \<Rightarrow> (nat \<Rightarrow> real) \<Rightarrow> nat \<Rightarrow> nat \<Rightarrow> string \<Rightarrow> string
     \<Rightarrow> string \<Rightarrow> nat option \<Rightarrow> real option \<Rightarrow> bool list option \<Rightarrow> error + EGNNLayer \<times> nat" where
  "EGNNLayer_init resolver rng p d act_name norm_name aggr_name rff_dim rff_sigma msk =
     (case resolve_aggr resolver aggr_name of
        Inl e \<Rightarrow> Inl e
      | Inr reduce \<Rightarrow>
     (case dict_get activation_table act_name of
        Inl e \<Rightarrow> Inl e
      | Inr act \<Rightarrow>
     (case dict_get norm_table norm_name of
        Inl e \<Rightarrow> Inl e
      | Inr nrm \<Rightarrow>
     (let (l1, p1) = nn_Linear rng p
                       (case rff_dim of None \<Rightarrow> 2 * d + 1 | Some k \<Rightarrow> 2 * d + k) d;
          (l2, p2) = nn_Linear rng p1 d d;
          msg = [l1, make_norm nrm d, act, l2, make_norm nrm d, act];
          (l3, p3) = nn_Linear rng p2 (2 * d) d;
          (l4, p4) = nn_Linear rng p3 d d;
          upd = [l3, make_norm nrm d, act, l4,
                 (if norm_name \<noteq> ''none'' then make_norm nrm d else Identity), act];
          self = \<lparr>aggr = aggr_name, aggr_module = reduce, emb_dim = d, activation = act,
                  norm_cls = nrm, RFF_dim = rff_dim, RFF_sigma = rff_sigma, mask = msk,
                  mlp_msg = msg, mlp_upd = upd, RFF_mod = None\<rparr>
      in case rff_dim of
           None \<Rightarrow> Inr (self, p4)
         | Some k \<Rightarrow>
             (case RFF_init rng p4 1 k rff_sigma of
                Inl e \<Rightarrow> Inl e
              | Inr (rff, p5) \<Rightarrow> Inr (self\<lparr>RFF_mod := Some rff\<rparr>, p5))))))"

text \<open>
  \<^verbatim>\<open>EGNNLayer.message\<close>. The call of \<open>mlp_msg\<close> may change its batch normalisation
  sub-layers, so the object is returned as it is afterwards.
\<close>

definition EGNNLayer_message ::
  "EGNNLayer \<Rightarrow> matrix \<Rightarrow> matrix \<Rightarrow> matrix \<Rightarrow> (error + matrix) \<times> EGNNLayer" where
  "EGNNLayer_message self h_i h_j distances =
     (case (case RFF_dim self of
              None \<Rightarrow> Inr distances
            | Some k \<Rightarrow>
                (case RFF_mod self of
                   None \<Rightarrow> Inl AttributeError
                 | Some rff \<Rightarrow> RFF_forward rff distances)) of
        Inl e \<Rightarrow> (Inl e, self)
      | Inr enc \<Rightarrow>
     (case cat_cols h_i h_j of
        Inl e \<Rightarrow> (Inl e, self)
      | Inr hh \<Rightarrow>
     (case cat_cols hh enc of
        Inl e \<Rightarrow> (Inl e, self)
      | Inr msg \<Rightarrow>
          (case Sequential_forward (mlp_msg self) msg of
             (r, ms) \<Rightarrow> (r, self\<lparr>mlp_msg := ms\<rparr>)))))"

text \<open>
  \<^verbatim>\<open>EGNNLayer.update\<close>. It reads the mask from the object, not from an argument.
\<close>

definition EGNNLayer_update ::
  "EGNNLayer \<Rightarrow> matrix \<Rightarrow> matrix \<Rightarrow> (error + matrix) \<times> EGNNLayer" where
  "EGNNLayer_update self aggr_out h =
     (case cat_cols h aggr_out of
        Inl e \<Rightarrow> (Inl e, self)
      | Inr hm \<Rightarrow>
     (case Sequential_forward (mlp_upd self) hm of
        (Inl e, us) \<Rightarrow> (Inl e, self\<lparr>mlp_upd := us\<rparr>)
      | (Inr upd_out, us) \<Rightarrow>
          ((case mask self of
              None \<Rightarrow> Inr upd_out
            | Some m \<Rightarrow> torch_where m upd_out h),
           self\<lparr>mlp_upd := us\<rparr>)))"

text \<open>
  \<^verbatim>\<open>propagate\<close> of the graph library, with its default flow from source to target:
  edge \<open>k\<close> of \<open>edge_index\<close> is the pair of its first row (the source \<open>j\<close>) and its
  second row (the target \<open>i\<close>). It gathers \<open>h_i\<close> and \<open>h_j\<close>, calls \<open>message\<close> on all
  edges at once, combines the messages per target over the nodes of \<open>h\<close> with the
  operator that the constructor resolved, and calls \<open>update\<close>. The keyword
  \<^verbatim>\<open>mask\<close> that \<^verbatim>\<open>forward\<close> passes on is taken by neither \<open>message\<close> nor
  \<open>update\<close>, so it has no part here.

  A message has \<open>emb_dim\<close> entries, the output width of the last linear sub-layer of
  \<open>mlp_msg\<close>. A list of rows does not carry the width of a tensor with no rows, so the
  model takes the width of the aggregate from \<open>emb_dim\<close> and checks the messages
  against it.
\<close>

definition propagate ::
  "EGNNLayer \<Rightarrow> (nat \<times> nat) list \<Rightarrow> matrix \<Rightarrow> matrix \<Rightarrow> (error + matrix) \<times> EGNNLayer" where
  "propagate self edge_index h distances =
     (case index_select h (map snd edge_index) of
        Inl e \<Rightarrow> (Inl e, self)
      | Inr h_i \<Rightarrow>
     (case index_select h (map fst edge_index) of
        Inl e \<Rightarrow> (Inl e, self)
      | Inr h_j \<Rightarrow>
     (case EGNNLayer_message self h_i h_j distances of
        (Inl e, self1) \<Rightarrow> (Inl e, self1)
      | (Inr msg, self1) \<Rightarrow>
          if list_all (\<lambda>m. length m = emb_dim self1) msg
          then EGNNLayer_update self1
                 (aggregate (aggr_module self1) msg (map snd edge_index) (length h)
                    (emb_dim self1)) h
          else (Inl ShapeError, self1))))"

text \<open>
  \<^verbatim>\<open>EGNNLayer.forward\<close>. The assignment \<^verbatim>\<open>self.mask = mask\<close> changes the object, so
  the call returns the object as it is afterwards, beside the result or the error.
\<close>

definition EGNNLayer_forward ::
  "EGNNLayer \<Rightarrow> matrix \<Rightarrow> (nat \<times> nat) list \<Rightarrow> matrix \<Rightarrow> bool list option
     \<Rightarrow> (error + matrix) \<times> EGNNLayer" where
  "EGNNLayer_forward self h edge_index distances msk =
     propagate (self\<lparr>mask := msk\<rparr>) edge_index h distances"

section \<open>EGNN_Full\<close>

text \<open>
  The graph batch that \<^verbatim>\<open>forward\<close> receives. Edge \<open>k\<close> is the pair
  \<open>(row[k], col[k])\<close> of the two rows of \<^verbatim>\<open>edge_index\<close>. A batch without the
  attribute \<^verbatim>\<open>mask\<close> has \<open>batch_mask = None\<close>.
\<close>

record graph_batch =
  batch_x :: matrix
  batch_pos :: matrix
  batch_edge_index :: "(nat \<times> nat) list"
  batch_batch :: "nat list"
  batch_mask :: "bool list option"

datatype pool_fn = global_mean_pool | global_add_pool

definition pool_table :: "(string \<times> pool_fn) list" where
  "pool_table = [(''mean'', global_mean_pool), (''add'', global_add_pool)]"

text \<open>
  The readout of the graph library: the rows of \<open>h\<close> are summed (or averaged) per
  graph id; the number of graphs is the largest id plus one.
\<close>

definition num_graphs :: "nat list \<Rightarrow> nat" where
  "num_graphs b = (if b = [] then 0 else Max (set b) + 1)"

definition width :: "matrix \<Rightarrow> nat" where
  "width h = (case h of [] \<Rightarrow> 0 | r # rs \<Rightarrow> length r)"

fun pool_forward :: "pool_fn \<Rightarrow> matrix \<Rightarrow> nat list \<Rightarrow> error + matrix" where
  "pool_forward global_add_pool h b =
     (if length b = length h then Inr (scatter_sum h b (num_graphs b) (width h))
      else Inl ShapeError)"
| "pool_forward global_mean_pool h b =
     (if length b = length h
      then Inr (map (\<lambda>(g, r). map (\<lambda>a. a / real (max 1 (length (rows_at h b g)))) r)
                  (zip [0..<num_graphs b] (scatter_sum h b (num_graphs b) (width h))))
      else Inl ShapeError)"

record EGNN_Full =
  depth :: nat
  hidden_features :: nat
  node_features :: nat
  out_features_full :: nat
  activation_name :: string
  norm_name :: string
  aggr_name :: string
  pool :: pool_fn
  residual :: bool
  RFF_dim_full :: "nat option"
  RFF_sigma_full :: "real option"
  mask_full :: "bool list option"
  name :: string
  emb_in :: module
  convs :: "EGNNLayer list"
  pred :: "module list"

text \<open>The loop \<^verbatim>\<open>for layer in range(depth): self.convs.append(EGNNLayer(...))\<close>.\<close>

fun make_convs ::
  "(string \<Rightarrow> (matrix \<Rightarrow> vec) option) \<Rightarrow> (nat \<Rightarrow> real) \<Rightarrow> nat \<Rightarrow> nat \<Rightarrow> nat \<Rightarrow> string
     \<Rightarrow> string \<Rightarrow> string \<Rightarrow> nat option \<Rightarrow> real option \<Rightarrow> bool list option
     \<Rightarrow> error + EGNNLayer list \<times> nat" where
  "make_convs resolver rng p 0 d act nrm ag rff_dim rff_sigma msk = Inr ([], p)"
| "make_convs resolver rng p (Suc n) d act nrm ag rff_dim rff_sigma msk =
     (case EGNNLayer_init resolver rng p d act nrm ag rff_dim rff_sigma msk of
        Inl e \<Rightarrow> Inl e
      | Inr (conv, p1) \<Rightarrow>
          (case make_convs resolver rng p1 n d act nrm ag rff_dim rff_sigma msk of
             Inl e \<Rightarrow> Inl e
           | Inr (cs, p2) \<Rightarrow> Inr (conv # cs, p2)))"

text \<open>\<^verbatim>\<open>EGNN_Full.__init__\<close>. The pooling name is looked up after the layers are built.\<close>

definition EGNN_Full_init ::
  "(string \<Rightarrow> (matrix \<Rightarrow> vec) option) \<Rightarrow> (nat \<Rightarrow> real) \<Rightarrow> nat \<Rightarrow> nat \<Rightarrow> nat \<Rightarrow> nat \<Rightarrow> nat
     \<Rightarrow> string \<Rightarrow> string \<Rightarrow> string \<Rightarrow> string \<Rightarrow> bool \<Rightarrow> nat option \<Rightarrow> real option
     \<Rightarrow> bool list option \<Rightarrow> error + EGNN_Full \<times> nat" where
  "EGNN_Full_init resolver rng p dep hid nf outf act nrm ag pl res rff_dim rff_sigma msk =
     (let (emb, p1) = nn_Linear rng p nf hid
      in case make_convs resolver rng p1 dep hid act nrm ag rff_dim rff_sigma msk of
           Inl e \<Rightarrow> Inl e
         | Inr (cs, p2) \<Rightarrow>
             (case dict_get pool_table pl of
                Inl e \<Rightarrow> Inl e
              | Inr pf \<Rightarrow>
                  (let (q1, p3) = nn_Linear rng p2 hid hid;
                       (q2, p4) = nn_Linear rng p3 hid outf
                   in Inr (\<lparr>depth = dep, hidden_features = hid, node_features = nf,
                             out_features_full = outf, activation_name = act, norm_name = nrm,
                             aggr_name = ag, pool = pf, residual = res,
                             RFF_dim_full = rff_dim, RFF_sigma_full = rff_sigma,
                             mask_full = msk, name = ''EGNN'', emb_in = emb, convs = cs,
                             pred = [q1, ReLU, q2]\<rparr>, p4))))"

text \<open>
  \<^verbatim>\<open>torch.norm(pos[row] - pos[col], dim=-1).unsqueeze(1)\<close>: one row with one entry per
  edge.
\<close>

definition tensor_sub :: "matrix \<Rightarrow> matrix \<Rightarrow> error + matrix" where
  "tensor_sub a b = (if same_shape a b then Inr (map2 (map2 (-)) a b) else Inl ShapeError)"

definition vec_norm :: "vec \<Rightarrow> real" where
  "vec_norm v = sqrt (sum_list (map (\<lambda>a. a\<^sup>2) v))"

definition edge_distances :: "matrix \<Rightarrow> (nat \<times> nat) list \<Rightarrow> error + matrix" where
  "edge_distances ps edge_index =
     (case index_select ps (map fst edge_index) of
        Inl e \<Rightarrow> Inl e
      | Inr pr \<Rightarrow>
     (case index_select ps (map snd edge_index) of
        Inl e \<Rightarrow> Inl e
      | Inr pc \<Rightarrow>
     (case tensor_sub pr pc of
        Inl e \<Rightarrow> Inl e
      | Inr df \<Rightarrow> Inr (map (\<lambda>v. [vec_norm v]) df))))"

text \<open>
  The body of the loop over \<^verbatim>\<open>self.convs\<close>: one call of a layer, then
  \<^verbatim>\<open>h = h + h_update if self.residual else h_update\<close>.
\<close>

definition conv_step ::
  "bool \<Rightarrow> EGNNLayer \<Rightarrow> matrix \<Rightarrow> (nat \<times> nat) list \<Rightarrow> matrix \<Rightarrow> bool list option
     \<Rightarrow> (error + matrix) \<times> EGNNLayer" where
  "conv_step res conv h edge_index distances msk =
     (case EGNNLayer_forward conv h edge_index distances msk of
        (Inl e, conv1) \<Rightarrow> (Inl e, conv1)
      | (Inr h_update, conv1) \<Rightarrow>
          ((if res then tensor_add h h_update else Inr h_update), conv1))"

fun conv_loop ::
  "bool \<Rightarrow> EGNNLayer list \<Rightarrow> matrix \<Rightarrow> (nat \<times> nat) list \<Rightarrow> matrix \<Rightarrow> bool list option
     \<Rightarrow> (error + matrix) \<times> EGNNLayer list" where
  "conv_loop res [] h edge_index distances msk = (Inr h, [])"
| "conv_loop res (conv # cs) h edge_index distances msk =
     (case conv_step res conv h edge_index distances msk of
        (Inl e, conv1) \<Rightarrow> (Inl e, conv1 # cs)
      | (Inr h1, conv1) \<Rightarrow>
          (case conv_loop res cs h1 edge_index distances msk of
             (r, cs1) \<Rightarrow> (r, conv1 # cs1)))"

text \<open>
  \<^verbatim>\<open>EGNN_Full.forward\<close>. The call returns the object with its sub-layers as they are
  afterwards, beside the result or the error.
\<close>

definition EGNN_Full_forward :: "EGNN_Full \<Rightarrow> graph_batch \<Rightarrow> (error + matrix) \<times> EGNN_Full" where
  "EGNN_Full_forward self batch =
     (case module_forward (emb_in self) (batch_x batch) of
        (Inl e, emb) \<Rightarrow> (Inl e, self\<lparr>emb_in := emb\<rparr>)
      | (Inr h, emb) \<Rightarrow>
     (case edge_distances (batch_pos batch) (batch_edge_index batch) of
        Inl e \<Rightarrow> (Inl e, self\<lparr>emb_in := emb\<rparr>)
      | Inr distances \<Rightarrow>
     (case conv_loop (residual self) (convs self) h (batch_edge_index batch) distances
             (batch_mask batch) of
        (Inl e, cs) \<Rightarrow> (Inl e, self\<lparr>emb_in := emb, convs := cs\<rparr>)
      | (Inr h1, cs) \<Rightarrow>
          (case pool_forward (pool self) h1 (batch_batch batch) of
             Inl e \<Rightarrow> (Inl e, self\<lparr>emb_in := emb, convs := cs\<rparr>)
           | Inr out \<Rightarrow>
               (case Sequential_forward (pred self) out of
                  (r, pr) \<Rightarrow> (r, self\<lparr>emb_in := emb, convs := cs, pred := pr\<rparr>))))))"

section \<open>What a call may change\<close>

text \<open>
  The buffers of batch normalisation in training mode and the stored mask of a layer are
  the state that calls are seen to change. \<open>forget_stats\<close> clears the buffers of a
  batch normalisation sub-layer that is in training mode, \<open>forget_layer\<close> clears the
  stored mask of a layer and these buffers of its sub-layers, and \<open>forget_model\<close> does
  so throughout a model; everything else is kept. Two objects are equal after forgetting
  when they differ in nothing but this state.
\<close>

fun forget_stats :: "module \<Rightarrow> module" where
  "forget_stats (BatchNorm1d d gamma beta running_mean running_var num_batches_tracked training)
     = (if training then BatchNorm1d d gamma beta [] [] 0 True
        else BatchNorm1d d gamma beta running_mean running_var num_batches_tracked False)"
| "forget_stats (Linear W b) = Linear W b"
| "forget_stats (LayerNorm d gamma beta) = LayerNorm d gamma beta"
| "forget_stats Identity = Identity"
| "forget_stats ReLU = ReLU"
| "forget_stats SiLU = SiLU"

definition forget_layer :: "EGNNLayer \<Rightarrow> EGNNLayer" where
  "forget_layer c =
     c\<lparr>mask := None, mlp_msg := map forget_stats (mlp_msg c),
       mlp_upd := map forget_stats (mlp_upd c)\<rparr>"

definition forget_model :: "EGNN_Full \<Rightarrow> EGNN_Full" where
  "forget_model m =
     m\<lparr>emb_in := forget_stats (emb_in m), convs := map forget_layer (convs m),
       pred := map forget_stats (pred m)\<rparr>"

section \<open>Example objects\<close>

text \<open>
  A generator that always draws \<open>1\<close>, the layer and the two-layer model that the
  constructors build from it (one hidden feature, ReLU, no normalisation, the sum as
  aggregation), and a graph of two nodes with the single edge from node \<open>0\<close> to node
  \<open>1\<close>.
\<close>

definition ones_rng :: "nat \<Rightarrow> real" where
  "ones_rng n = 1"

definition demo_layer :: "string \<Rightarrow> bool list option \<Rightarrow> EGNNLayer" where
  "demo_layer ag msk =
     \<lparr>aggr = ag, aggr_module = sum_rows, emb_dim = 1, activation = ReLU,
      norm_cls = Identity_cls,
      RFF_dim = None, RFF_sigma = None, mask = msk,
      mlp_msg = [Linear [[1, 1, 1]] [1], Identity, ReLU, Linear [[1]] [1], Identity, ReLU],
      mlp_upd = [Linear [[1, 1]] [1], Identity, ReLU, Linear [[1]] [1], Identity, ReLU],
      RFF_mod = None\<rparr>"

definition demo_model :: "bool \<Rightarrow> EGNN_Full" where
  "demo_model res =
     \<lparr>depth = 2, hidden_features = 1, node_features = 1, out_features_full = 1,
      activation_name = ''relu'', norm_name = ''none'', aggr_name = ''sum'',
      pool = global_add_pool, residual = res, RFF_dim_full = None, RFF_sigma_full = None,
      mask_full = None, name = ''EGNN'', emb_in = Linear [[1]] [1],
      convs = [demo_layer ''sum'' None, demo_layer ''sum'' None],
      pred = [Linear [[1]] [1], ReLU, Linear [[1]] [1]]\<rparr>"

text \<open>
  A layer with batch normalisation in training mode, as the constructor builds it from
  the same generator, and two further embeddings for it.
\<close>

definition bn_layer :: EGNNLayer where
  "bn_layer =
     \<lparr>aggr = ''add'', aggr_module = sum_rows, emb_dim = 1, activation = ReLU,
      norm_cls = BatchNorm1d_cls, RFF_dim = None, RFF_sigma = None, mask = None,
      mlp_msg = [Linear [[1, 1, 1]] [1], BatchNorm1d 1 [1] [0] [0] [1] 0 True, ReLU,
                 Linear [[1]] [1], BatchNorm1d 1 [1] [0] [0] [1] 0 True, ReLU],
      mlp_upd = [Linear [[1, 1]] [1], BatchNorm1d 1 [1] [0] [0] [1] 0 True, ReLU,
                 Linear [[1]] [1], BatchNorm1d 1 [1] [0] [0] [1] 0 True, ReLU],
      RFF_mod = None\<rparr>"

definition demo_batch :: "bool list option \<Rightarrow> graph_batch" where
  "demo_batch msk =
     \<lparr>batch_x = [[0], [1]], batch_pos = [[0, 0, 0], [1, 0, 0]], batch_edge_index = [(0, 1)],
      batch_batch = [0, 0], batch_mask = msk\<rparr>"

section \<open>Shapes of the library operations\<close>

lemma length_randn: "length (randn rng p r c) = r"
  by (simp add: randn_def)

lemma randn_rows: "list_all (\<lambda>w. length w = c) (randn rng p r c)"
  by (simp add: randn_def list_all_iff)

lemma F_linear_ok:
  "list_all (\<lambda>r. list_all (\<lambda>w. length r = length w) W) x \<Longrightarrow>
   F_linear x W = Inr (map (\<lambda>r. map (\<lambda>w. dot w r) W) x)"
  by (simp add: F_linear_def)

lemma half_width:
  "2 * (n div 2 + (if n mod 2 \<noteq> 0 then 1 else 0)) - (if n mod 2 \<noteq> 0 then 1 else 0) = (n::nat)"
  by (simp split: if_splits) presburger

section \<open>Random Fourier features\<close>

text \<open>
  Claim C4. For an \<^verbatim>\<open>RFF\<close> object constructed with \<open>n_out\<close> output features and an
  input \<open>x\<close> whose rows have the configured input width, \<^verbatim>\<open>forward\<close> returns, row by
  row, the sines of \<open>x\<close> times the transpose of \<open>B\<close> followed by the cosines, without the
  last column when \<open>n_out\<close> is odd; every row of the result has exactly \<open>n_out\<close>
  entries, for odd and even \<open>n_out\<close>, and \<open>B\<close> has \<open>\<lceil>n_out / 2\<rceil>\<close> rows.
\<close>

theorem RFF_forward_concat:
  assumes init: "RFF_init rng p n_in n_out (Some s) = Inr (rff, p')"
    and shape: "list_all (\<lambda>r. length r = n_in) x"
  shows "\<exists>out. RFF_forward rff x = Inr out \<and>
           out = map (\<lambda>r. let y = map (\<lambda>w. dot w r) (B rff); z = map sin y @ map cos y
                           in if odd n_out then butlast z else z) x \<and>
           list_all (\<lambda>r. length r = n_out) out \<and>
           length (B rff) = (n_out + 1) div 2"
proof -
  let ?comp = "if n_out mod 2 \<noteq> 0 then 1 else 0 :: nat"
  let ?rows = "n_out div 2 + ?comp"
  from init have rff: "rff = \<lparr>sigma = s, in_features = n_in, out_features = n_out,
      compensation = ?comp, B = map (map (\<lambda>v. v * s / sqrt 2)) (randn rng p ?rows n_in)\<rparr>"
    by (simp add: RFF_init_def Let_def)
  have lenB: "length (B rff) = ?rows"
    by (simp add: rff length_randn)
  have rowsB: "list_all (\<lambda>w. length w = n_in) (B rff)"
    by (simp add: rff randn_def list_all_iff)
  have ok: "list_all (\<lambda>r. list_all (\<lambda>w. length r = length w) (B rff)) x"
    using shape rowsB by (auto simp: list_all_iff)
  have lin: "F_linear x (B rff) = Inr (map (\<lambda>r. map (\<lambda>w. dot w r) (B rff)) x)"
    by (rule F_linear_ok [OF ok])
  have comp: "compensation rff = ?comp"
    by (simp add: rff)
  have fw: "RFF_forward rff x =
           Inr (map (\<lambda>r. let y = map (\<lambda>w. dot w r) (B rff); z = map sin y @ map cos y
                          in if odd n_out then butlast z else z) x)"
    by (simp add: RFF_forward_def lin comp Let_def odd_iff_mod_2_eq_one)
  have w: "2 * ?rows - ?comp = n_out"
    by (rule half_width)
  have half: "length (B rff) = (n_out + 1) div 2"
    unfolding lenB by (simp split: if_splits) presburger
  have "list_all (\<lambda>r. length r = n_out)
          (map (\<lambda>r. let y = map (\<lambda>w. dot w r) (B rff); z = map sin y @ map cos y
                     in if odd n_out then butlast z else z) x)"
    using w lenB by (auto simp: list_all_iff Let_def split: if_splits)
  with fw half show ?thesis by blast
qed

theorem RFF_forward_concat_witness:
  "\<exists>rff p'. RFF_init (\<lambda>n. 1) 0 1 7 (Some 1) = Inr (rff, p') \<and>
     list_all (\<lambda>r. length r = 1) [[0::real], [2]] \<and>
     (\<exists>out. RFF_forward rff [[0], [2]] = Inr out \<and>
        list_all (\<lambda>r. length r = 7) out \<and> length (B rff) = 4)"
proof -
  obtain rff p' where init: "RFF_init (\<lambda>n. 1) 0 1 7 (Some 1) = Inr (rff, p')"
    by (simp add: RFF_init_def)
  have shape: "list_all (\<lambda>r. length r = 1) [[0::real], [2]]"
    by simp
  from RFF_forward_concat [OF init shape] init shape show ?thesis
    by auto
qed

section \<open>The example objects evaluated\<close>

lemma upt_3: "[0..<3] = [0, 1, 2]" by (simp add: upt_rec)
lemma upt_2: "[0..<2] = [0, 1]" by (simp add: upt_rec)

lemma lib_aggr_sum: "lib_aggr ''add'' = Some sum_rows" "lib_aggr ''sum'' = Some sum_rows"
  by (simp_all add: lib_aggr_def)

lemma demo_layer_init:
  assumes "ag = ''add'' \<or> ag = ''sum''"
  shows "EGNNLayer_init lib_aggr ones_rng p 1 ''relu'' ''none'' ag None None msk
           = Inr (demo_layer ag msk, p + 11)"
  using assms
  by (auto simp: EGNNLayer_init_def resolve_aggr_def lib_aggr_sum dict_get_def
      activation_table_def norm_table_def nn_Linear_def randn_def ones_rng_def demo_layer_def
      upt_3 upt_2)

lemma demo_model_init:
  "EGNN_Full_init lib_aggr ones_rng 0 2 1 1 1 ''relu'' ''none'' ''sum'' ''add'' res None None None
     = Inr (demo_model res, 28)"
  by (simp add: EGNN_Full_init_def demo_layer_init [unfolded One_nat_def] numeral_2_eq_2
      dict_get_def pool_table_def nn_Linear_def randn_def ones_rng_def demo_model_def)

lemma demo_layer_forward:
  "EGNNLayer_forward (demo_layer ag m0) [[a], [b]] [(0, 1)] [[1]] m =
     (case m of
        None \<Rightarrow> (Inr [[max 0 (max 0 (a + 1) + 1)],
                       [max 0 (max 0 (b + max 0 (max 0 (b + a + 2) + 1) + 1) + 1)]],
                  demo_layer ag None)
      | Some c \<Rightarrow> (torch_where c [[max 0 (max 0 (a + 1) + 1)],
                       [max 0 (max 0 (b + max 0 (max 0 (b + a + 2) + 1) + 1) + 1)]] [[a], [b]],
                    demo_layer ag (Some c)))"
  by (simp add: EGNNLayer_forward_def Let_def propagate_def EGNNLayer_update_def
      EGNNLayer_message_def index_select_def cat_cols_def F_linear_def dot_def vadd_def
      aggregate_def sum_rows_def rows_at_def demo_layer_def upt_2 add_ac split: option.splits)

lemma demo_distances: "edge_distances [[0, 0, 0], [1, 0, 0]] [(0, 1)] = Inr [[1]]"
  by (simp add: edge_distances_def index_select_def tensor_sub_def same_shape_def vec_norm_def)

lemma demo_model_forward_None:
  "EGNN_Full_forward (demo_model True) (demo_batch None) = (Inr [[57]], demo_model True)"
  by (simp add: EGNN_Full_forward_def demo_model_def demo_batch_def
      demo_distances [unfolded One_nat_def]
      demo_layer_forward [unfolded One_nat_def] conv_step_def tensor_add_def same_shape_def
      vadd_def F_linear_def dot_def num_graphs_def width_def scatter_sum_def rows_at_def)

section \<open>Calls of a layer that return\<close>

lemma EGNNLayer_message_state:
  "\<exists>ms. snd (EGNNLayer_message self h_i h_j d) = self\<lparr>mlp_msg := ms\<rparr>"
proof -
  have same: "self = self\<lparr>mlp_msg := mlp_msg self\<rparr>" by simp
  show ?thesis
    by (auto simp: EGNNLayer_message_def split: sum.splits prod.splits option.splits
        intro: exI [of _ "mlp_msg self"])
qed

lemma EGNNLayer_forward_InrE:
  assumes "EGNNLayer_forward self h ei d m = (Inr out, self2)"
  obtains msg ms hm upd_out us where
    "EGNNLayer_message (self\<lparr>mask := m\<rparr>) (map (nth h) (map snd ei)) (map (nth h) (map fst ei)) d
       = (Inr msg, self\<lparr>mask := m, mlp_msg := ms\<rparr>)"
    "list_all (\<lambda>r. length r = emb_dim self) msg"
    "cat_cols h (aggregate (aggr_module self) msg (map snd ei) (length h) (emb_dim self)) = Inr hm"
    "Sequential_forward (mlp_upd self) hm = (Inr upd_out, us)"
    "(case m of None \<Rightarrow> Inr upd_out | Some c \<Rightarrow> torch_where c upd_out h) = Inr out"
    "self2 = self\<lparr>mask := m, mlp_msg := ms, mlp_upd := us\<rparr>"
proof -
  let ?s = "self\<lparr>mask := m\<rparr>"
  let ?hi = "map (nth h) (map snd ei)" and ?hj = "map (nth h) (map fst ei)"
  obtain r s1 where msg: "EGNNLayer_message ?s ?hi ?hj d = (r, s1)"
    by (cases "EGNNLayer_message ?s ?hi ?hj d")
  with EGNNLayer_message_state [of ?s ?hi ?hj d] obtain ms where
    s1: "s1 = self\<lparr>mask := m, mlp_msg := ms\<rparr>" by auto
  from assms have sel: "index_select h (map snd ei) = Inr ?hi" "index_select h (map fst ei) = Inr ?hj"
    by (auto simp: EGNNLayer_forward_def propagate_def index_select_def
        split: sum.splits if_splits)
  from assms msg sel obtain mg where r: "r = Inr mg"
    by (cases r) (auto simp: EGNNLayer_forward_def propagate_def)
  from assms msg sel r s1 have w: "list_all (\<lambda>r. length r = emb_dim self) mg"
    and upd: "EGNNLayer_update s1 (aggregate (aggr_module self) mg (map snd ei) (length h)
                (emb_dim self)) h = (Inr out, self2)"
    by (auto simp: EGNNLayer_forward_def propagate_def split: if_splits)
  from upd s1 obtain hm upd_out us where
    "cat_cols h (aggregate (aggr_module self) mg (map snd ei) (length h) (emb_dim self)) = Inr hm"
    "Sequential_forward (mlp_upd self) hm = (Inr upd_out, us)"
    "(case m of None \<Rightarrow> Inr upd_out | Some c \<Rightarrow> torch_where c upd_out h) = Inr out"
    "self2 = self\<lparr>mask := m, mlp_msg := ms, mlp_upd := us\<rparr>"
    by (auto simp: EGNNLayer_update_def split: sum.splits prod.splits)
  with msg r s1 w that show ?thesis by blast
qed

lemma same_shape_length: "same_shape a b \<Longrightarrow> length a = length b"
  unfolding same_shape_def by (metis length_map)

lemma torch_where_nth:
  assumes "torch_where c a b = Inr out" and "i < length b"
  shows "out ! i = (if c ! i then a ! i else b ! i)"
proof -
  from assms(1) have len: "length c = length a" "same_shape a b"
    and out: "out = map (\<lambda>(m, u, v). if m then u else v) (zip c (zip a b))"
    by (auto simp: torch_where_def split: if_splits)
  from len(2) have ab: "length a = length b" by (rule same_shape_length)
  show "out ! i = (if c ! i then a ! i else b ! i)"
    using assms(2) len ab out by simp
qed

lemma torch_where_length:
  assumes "torch_where c a b = Inr out"
  shows "length out = length b" and "length c = length b"
proof -
  from assms have len: "length c = length a" "same_shape a b"
    and out: "out = map (\<lambda>(m, u, v). if m then u else v) (zip c (zip a b))"
    by (auto simp: torch_where_def split: if_splits)
  from len(2) have ab: "length a = length b" by (rule same_shape_length)
  show "length out = length b" "length c = length b" using len ab out by simp_all
qed

section \<open>Masking in a layer\<close>

text \<open>
  Claim C2. When \<^verbatim>\<open>EGNNLayer.forward\<close> is called with a mask and returns, the row of
  the result at every node \<open>i\<close> whose mask entry is false is the row of the input \<open>h\<close>
  at \<open>i\<close>. The update network \<open>mlp_upd\<close> has run on all nodes before: the result is
  \<^verbatim>\<open>torch.where\<close> applied to its output and \<open>h\<close>.
\<close>

theorem EGNNLayer_forward_mask_passthrough:
  assumes fw: "EGNNLayer_forward self h edge_index distances (Some m) = (Inr out, self1)"
    and i: "i < length h" and off: "\<not> m ! i"
  shows "out ! i = h ! i \<and>
         (\<exists>hm upd_out. fst (Sequential_forward (mlp_upd self) hm) = Inr upd_out \<and>
            torch_where m upd_out h = Inr out)"
proof -
  from fw obtain hm upd_out us where
    upd: "Sequential_forward (mlp_upd self) hm = (Inr upd_out, us)"
    and wh: "torch_where m upd_out h = Inr out"
    by (auto elim: EGNNLayer_forward_InrE)
  from torch_where_nth [OF wh i] off have "out ! i = h ! i" by simp
  moreover from upd have "fst (Sequential_forward (mlp_upd self) hm) = Inr upd_out" by simp
  ultimately show ?thesis using wh by blast
qed

theorem EGNNLayer_forward_mask_passthrough_witness:
  "EGNNLayer_forward (demo_layer ''add'' None) [[1], [2]] [(0, 1)] [[1]] (Some [False, True])
     = (Inr [[1], [10]], demo_layer ''add'' (Some [False, True])) \<and>
   (0::nat) < length [[1::real], [2]] \<and> \<not> [False, True] ! 0 \<and>
   [[1], [10]] ! 0 = [[1::real], [2]] ! 0"
proof -
  have fw: "EGNNLayer_forward (demo_layer ''add'' None) [[1], [2]] [(0, 1)] [[1]]
      (Some [False, True]) = (Inr [[1], [10]], demo_layer ''add'' (Some [False, True]))"
    unfolding demo_layer_forward by (simp add: torch_where_def same_shape_def)
  have i: "(0::nat) < length [[1::real], [2]]" by simp
  have off: "\<not> [False, True] ! 0" by simp
  from EGNNLayer_forward_mask_passthrough [OF fw i off] fw i off show ?thesis by simp
qed

section \<open>Aggregation at a node without incoming edges\<close>

lemma rows_at_no_incoming: "i \<notin> set index \<Longrightarrow> rows_at src index i = []"
  by (auto simp: rows_at_def filter_empty_conv dest: set_zip_rightD)

lemma scatter_sum_no_incoming:
  "i < n \<Longrightarrow> i \<notin> set index \<Longrightarrow> scatter_sum src index n w ! i = replicate w 0"
  by (simp add: scatter_sum_def rows_at_no_incoming)

lemma length_scatter_sum: "length (scatter_sum src index n w) = n"
  by (simp add: scatter_sum_def)

lemma aggregate_no_incoming:
  "i < n \<Longrightarrow> i \<notin> set index \<Longrightarrow> aggregate reduce src index n w ! i = replicate w 0"
  by (simp add: aggregate_def rows_at_no_incoming)

lemma length_aggregate: "length (aggregate reduce src index n w) = n"
  by (simp add: aggregate_def)

text \<open>
  Claim C5. When \<^verbatim>\<open>EGNNLayer.forward\<close> returns, the aggregated message of every node
  that is the target of no edge is the zero vector of length \<open>emb_dim\<close>, and the row
  that the update network receives for that node is its embedding followed by these
  zeros, whichever operator the aggregation combines messages with. The target of an
  edge is its entry in the second row of \<^verbatim>\<open>edge_index\<close>.
\<close>

theorem EGNNLayer_forward_no_incoming_zero:
  assumes fw: "EGNNLayer_forward self h edge_index distances msk = (Inr out, self1)"
    and i: "i < length h" and iso: "i \<notin> snd ` set edge_index"
  shows "\<exists>msg hm upd_out.
           fst (EGNNLayer_message (self\<lparr>mask := msk\<rparr>) (map (nth h) (map snd edge_index))
                  (map (nth h) (map fst edge_index)) distances) = Inr msg \<and>
           aggregate (aggr_module self) msg (map snd edge_index) (length h) (emb_dim self) ! i
             = replicate (emb_dim self) 0 \<and>
           cat_cols h (aggregate (aggr_module self) msg (map snd edge_index) (length h)
                         (emb_dim self)) = Inr hm \<and>
           hm ! i = h ! i @ replicate (emb_dim self) 0 \<and>
           fst (Sequential_forward (mlp_upd self) hm) = Inr upd_out"
proof -
  from fw obtain msg ms hm upd_out us where
    msg: "EGNNLayer_message (self\<lparr>mask := msk\<rparr>) (map (nth h) (map snd edge_index))
             (map (nth h) (map fst edge_index)) distances
            = (Inr msg, self\<lparr>mask := msk, mlp_msg := ms\<rparr>)"
    and cat: "cat_cols h (aggregate (aggr_module self) msg (map snd edge_index) (length h)
                            (emb_dim self)) = Inr hm"
    and upd: "Sequential_forward (mlp_upd self) hm = (Inr upd_out, us)"
    by (rule EGNNLayer_forward_InrE)
  let ?ag = "aggregate (aggr_module self) msg (map snd edge_index) (length h) (emb_dim self)"
  from iso have "i \<notin> set (map snd edge_index)" by simp
  with i have zero: "?ag ! i = replicate (emb_dim self) 0"
    by (rule aggregate_no_incoming)
  from cat have "hm = map2 (@) h ?ag"
    by (simp add: cat_cols_def split: if_splits)
  with i zero have row: "hm ! i = h ! i @ replicate (emb_dim self) 0"
    by (simp add: length_aggregate)
  from msg have m1: "fst (EGNNLayer_message (self\<lparr>mask := msk\<rparr>) (map (nth h) (map snd edge_index))
                  (map (nth h) (map fst edge_index)) distances) = Inr msg" by simp
  from upd have u1: "fst (Sequential_forward (mlp_upd self) hm) = Inr upd_out" by simp
  from m1 zero cat row u1 show ?thesis by blast
qed

theorem EGNNLayer_forward_no_incoming_zero_witness:
  "EGNNLayer_forward (demo_layer ''add'' None) [[1], [2]] [(0, 1)] [[1]] None
     = (Inr [[3], [10]], demo_layer ''add'' None) \<and>
   (0::nat) < length [[1::real], [2]] \<and> (0::nat) \<notin> snd ` set [(0::nat, 1::nat)] \<and>
   (\<exists>msg hm. aggregate (aggr_module (demo_layer ''add'' None)) msg (map snd [(0::nat, 1::nat)])
        (length [[1::real], [2]]) (emb_dim (demo_layer ''add'' None)) ! 0
          = replicate (emb_dim (demo_layer ''add'' None)) (0::real) \<and>
      hm ! 0 = [[1::real], [2]] ! 0 @ replicate (emb_dim (demo_layer ''add'' None)) 0)"
proof -
  have fw: "EGNNLayer_forward (demo_layer ''add'' None) [[1], [2]] [(0, 1)] [[1]] None
      = (Inr [[3], [10]], demo_layer ''add'' None)"
    unfolding demo_layer_forward by simp
  have i: "(0::nat) < length [[1::real], [2]]" by simp
  have iso: "(0::nat) \<notin> snd ` set [(0::nat, 1::nat)]" by simp
  from EGNNLayer_forward_no_incoming_zero [OF fw i iso] fw i iso show ?thesis by blast
qed

section \<open>What a forward call changes\<close>

lemma module_forward_frame: "forget_stats (snd (module_forward m x)) = forget_stats m"
  by (cases m) (simp_all add: Let_def)

lemma Sequential_forward_frame:
  "map forget_stats (snd (Sequential_forward ms x)) = map forget_stats ms"
proof (induction ms arbitrary: x)
  case Nil
  show ?case by simp
next
  case (Cons m ms)
  obtain r m1 where step: "module_forward m x = (r, m1)"
    by (cases "module_forward m x")
  with module_forward_frame [of m x] have m1: "forget_stats m1 = forget_stats m" by simp
  show ?case
  proof (cases r)
    case (Inl e)
    with step m1 show ?thesis by simp
  next
    case (Inr y)
    with step m1 Cons.IH [of y] show ?thesis
      by (cases "Sequential_forward ms y") simp
  qed
qed

lemma Sequential_forward_frameD:
  "Sequential_forward ms x = (r, ms1) \<Longrightarrow> map forget_stats ms1 = map forget_stats ms"
  using Sequential_forward_frame [of ms x] by simp

lemma EGNNLayer_message_frame:
  "forget_layer (snd (EGNNLayer_message self h_i h_j d)) = forget_layer self"
  "mask (snd (EGNNLayer_message self h_i h_j d)) = mask self"
  by (auto simp: EGNNLayer_message_def forget_layer_def
      split: sum.splits prod.splits option.splits dest: Sequential_forward_frameD)

lemma EGNNLayer_update_frame:
  "forget_layer (snd (EGNNLayer_update self a h)) = forget_layer self"
  "mask (snd (EGNNLayer_update self a h)) = mask self"
  by (auto simp: EGNNLayer_update_def forget_layer_def
      split: sum.splits prod.splits option.splits dest: Sequential_forward_frameD)

lemma EGNNLayer_update_frameD:
  "EGNNLayer_update self a h = (r, s1) \<Longrightarrow> forget_layer s1 = forget_layer self \<and> mask s1 = mask self"
  using EGNNLayer_update_frame [of self a h] by simp

lemma propagate_frame:
  "forget_layer (snd (propagate self ei h d)) = forget_layer self"
  "mask (snd (propagate self ei h d)) = mask self"
proof -
  let ?msg = "EGNNLayer_message self (map (nth h) (map snd ei)) (map (nth h) (map fst ei)) d"
  obtain r s1 where msg: "?msg = (r, s1)" by (cases ?msg)
  with EGNNLayer_message_frame [of self "map (nth h) (map snd ei)" "map (nth h) (map fst ei)" d]
  have s1: "forget_layer s1 = forget_layer self" "mask s1 = mask self" by simp_all
  have "snd (propagate self ei h d) = self \<or> snd (propagate self ei h d) = s1 \<or>
        (\<exists>a. snd (propagate self ei h d) = snd (EGNNLayer_update s1 a h))"
    using msg by (auto simp: propagate_def index_select_def split: sum.splits if_splits)
  then have "forget_layer (snd (propagate self ei h d)) = forget_layer self \<and>
             mask (snd (propagate self ei h d)) = mask self"
    using s1 EGNNLayer_update_frame [of s1] by auto
  then show "forget_layer (snd (propagate self ei h d)) = forget_layer self"
    and "mask (snd (propagate self ei h d)) = mask self" by simp_all
qed

lemma EGNNLayer_forward_frame:
  "forget_layer (snd (EGNNLayer_forward self h ei d m)) = forget_layer self"
  "mask (snd (EGNNLayer_forward self h ei d m)) = m"
  using propagate_frame [of "self\<lparr>mask := m\<rparr>" ei h d]
  by (simp_all add: EGNNLayer_forward_def forget_layer_def)

lemma conv_step_state:
  "snd (conv_step res conv h ei d m) = snd (EGNNLayer_forward conv h ei d m)"
  by (simp add: conv_step_def split: sum.splits prod.splits)

lemma conv_loop_Cons_Inr:
  "conv_step res c h ei d m = (Inr h1, c1) \<Longrightarrow>
   conv_loop res (c # cs) h ei d m
     = (fst (conv_loop res cs h1 ei d m), c1 # snd (conv_loop res cs h1 ei d m))"
  by (simp split: prod.splits)

lemma conv_loop_Cons_Inl:
  "conv_step res c h ei d m = (Inl e, c1) \<Longrightarrow>
   conv_loop res (c # cs) h ei d m = (Inl e, c1 # cs)"
  by simp

lemma conv_loop_frame:
  "map forget_layer (snd (conv_loop res cs h ei d m)) = map forget_layer cs"
proof (induction cs arbitrary: h)
  case Nil
  show ?case by simp
next
  case (Cons c cs)
  obtain r c1 where step: "conv_step res c h ei d m = (r, c1)"
    by (cases "conv_step res c h ei d m")
  with conv_step_state [of res c h ei d m] EGNNLayer_forward_frame(1) [of c h ei d m]
  have c1: "forget_layer c1 = forget_layer c" by simp
  show ?case
  proof (cases r)
    case (Inl e)
    with step c1 show ?thesis by (simp add: conv_loop_Cons_Inl del: conv_loop.simps)
  next
    case (Inr h1)
    with step c1 Cons.IH [of h1] show ?thesis
      by (simp add: conv_loop_Cons_Inr del: conv_loop.simps)
  qed
qed

lemma EGNN_Full_forward_state:
  "\<exists>emb cs pr. snd (EGNN_Full_forward model batch) = model\<lparr>emb_in := emb, convs := cs, pred := pr\<rparr> \<and>
     forget_stats emb = forget_stats (emb_in model) \<and>
     map forget_layer cs = map forget_layer (convs model) \<and>
     map forget_stats pr = map forget_stats (pred model)"
proof -
  let ?ei = "batch_edge_index batch" and ?m = "batch_mask batch"
  obtain r0 emb where emb: "module_forward (emb_in model) (batch_x batch) = (r0, emb)"
    by (cases "module_forward (emb_in model) (batch_x batch)")
  with module_forward_frame [of "emb_in model" "batch_x batch"]
  have e: "forget_stats emb = forget_stats (emb_in model)" by simp
  have stop: ?thesis if "snd (EGNN_Full_forward model batch) = model\<lparr>emb_in := emb\<rparr>"
  proof -
    from that have "snd (EGNN_Full_forward model batch)
        = model\<lparr>emb_in := emb, convs := convs model, pred := pred model\<rparr>" by simp
    with e show ?thesis by blast
  qed
  show ?thesis
  proof (cases r0)
    case (Inl err)
    with emb have "snd (EGNN_Full_forward model batch) = model\<lparr>emb_in := emb\<rparr>"
      by (simp add: EGNN_Full_forward_def)
    then show ?thesis by (rule stop)
  next
    case h0: (Inr h0)
    show ?thesis
    proof (cases "edge_distances (batch_pos batch) ?ei")
      case (Inl err)
      with emb h0 have "snd (EGNN_Full_forward model batch) = model\<lparr>emb_in := emb\<rparr>"
        by (simp add: EGNN_Full_forward_def)
      then show ?thesis by (rule stop)
    next
      case D: (Inr D)
      obtain r1 cs where loop: "conv_loop (residual model) (convs model) h0 ?ei D ?m = (r1, cs)"
        by (cases "conv_loop (residual model) (convs model) h0 ?ei D ?m")
      with conv_loop_frame [of "residual model" "convs model" h0 ?ei D ?m]
      have c: "map forget_layer cs = map forget_layer (convs model)" by simp
      have stop2: ?thesis
        if "snd (EGNN_Full_forward model batch) = model\<lparr>emb_in := emb, convs := cs\<rparr>"
      proof -
        from that have "snd (EGNN_Full_forward model batch)
            = model\<lparr>emb_in := emb, convs := cs, pred := pred model\<rparr>" by simp
        with e c show ?thesis by blast
      qed
      show ?thesis
      proof (cases r1)
        case (Inl err)
        with emb h0 D loop
        have "snd (EGNN_Full_forward model batch) = model\<lparr>emb_in := emb, convs := cs\<rparr>"
          by (simp add: EGNN_Full_forward_def)
        then show ?thesis by (rule stop2)
      next
        case h1: (Inr h1)
        show ?thesis
        proof (cases "pool_forward (pool model) h1 (batch_batch batch)")
          case (Inl err)
          with emb h0 D loop h1
          have "snd (EGNN_Full_forward model batch) = model\<lparr>emb_in := emb, convs := cs\<rparr>"
            by (simp add: EGNN_Full_forward_def)
          then show ?thesis by (rule stop2)
        next
          case (Inr pooled)
          obtain r2 pr where pr: "Sequential_forward (pred model) pooled = (r2, pr)"
            by (cases "Sequential_forward (pred model) pooled")
          from Sequential_forward_frameD [OF pr]
          have p: "map forget_stats pr = map forget_stats (pred model)" .
          from emb h0 D loop h1 Inr pr
          have "snd (EGNN_Full_forward model batch)
              = model\<lparr>emb_in := emb, convs := cs, pred := pr\<rparr>"
            by (simp add: EGNN_Full_forward_def)
          with e c p show ?thesis by blast
        qed
      qed
    qed
  qed
qed

lemma EGNN_Full_forward_frame:
  "forget_model (snd (EGNN_Full_forward model batch)) = forget_model model"
proof -
  from EGNN_Full_forward_state [of model batch] obtain emb cs pr where
    "snd (EGNN_Full_forward model batch) = model\<lparr>emb_in := emb, convs := cs, pred := pr\<rparr>"
    "forget_stats emb = forget_stats (emb_in model)"
    "map forget_layer cs = map forget_layer (convs model)"
    "map forget_stats pr = map forget_stats (pred model)"
    by blast
  then show ?thesis by (simp add: forget_model_def)
qed

text \<open>
  A layer with batch normalisation, built in training mode as the constructor leaves it,
  called on two nodes with an edge in each direction: the call returns, and the buffers
  of the two normalisation sub-layers of \<open>mlp_msg\<close> are not what they were.
\<close>

lemma bn_layer_init:
  "EGNNLayer_init lib_aggr ones_rng p 1 ''relu'' ''batch'' ''add'' None None None
     = Inr (bn_layer, p + 11)"
  by (simp add: EGNNLayer_init_def resolve_aggr_def lib_aggr_sum dict_get_def
      activation_table_def norm_table_def nn_Linear_def randn_def ones_rng_def bn_layer_def
      upt_3 upt_2)

lemma EGNNLayer_update_mlp_msg: "mlp_msg (snd (EGNNLayer_update self a h)) = mlp_msg self"
  by (auto simp: EGNNLayer_update_def split: sum.splits prod.splits option.splits)

lemma bn_message:
  "EGNNLayer_message (bn_layer\<lparr>mask := m\<rparr>) [[2], [1]] [[1], [2]] [[1], [1]]
     = (Inr [[0], [0]],
        bn_layer\<lparr>mask := m,
          mlp_msg := [Linear [[1, 1, 1]] [1], BatchNorm1d 1 [1] [0] [1 / 2] [9 / 10] 1 True, ReLU,
                      Linear [[1]] [1], BatchNorm1d 1 [1] [0] [1 / 10] [9 / 10] 1 True, ReLU]\<rparr>)"
  by (simp add: EGNNLayer_message_def bn_layer_def cat_cols_def F_linear_def dot_def vadd_def
      Let_def mean_def variance_def column_def normalise_def running_update_def momentum_def)

lemma bn_forward_buffers:
  "mlp_msg (snd (EGNNLayer_forward bn_layer [[1], [2]] [(0, 1), (1, 0)] [[1], [1]] m))
     = [Linear [[1, 1, 1]] [1], BatchNorm1d 1 [1] [0] [1 / 2] [9 / 10] 1 True, ReLU,
        Linear [[1]] [1], BatchNorm1d 1 [1] [0] [1 / 10] [9 / 10] 1 True, ReLU]"
  by (simp add: EGNNLayer_forward_def propagate_def index_select_def
      bn_message [unfolded One_nat_def] EGNNLayer_update_mlp_msg)

lemma bn_forward_returns:
  "\<not> isl (fst (EGNNLayer_forward bn_layer [[1], [2]] [(0, 1), (1, 0)] [[1], [1]] None))"
  apply (simp add: EGNNLayer_forward_def propagate_def index_select_def
      bn_message [unfolded One_nat_def])
  apply (simp add: EGNNLayer_update_def aggregate_def rows_at_def
      sum_rows_def cat_cols_def bn_layer_def F_linear_def dot_def vadd_def Let_def upt_2
      normalise_def
      split: prod.splits sum.splits)
  done

text \<open>
  Claim C9 says that a forward call leaves every attribute of the layer and of the model
  as it was, the stored mask of the layer included. The assignment \<^verbatim>\<open>self.mask = mask\<close>
  in \<^verbatim>\<open>EGNNLayer.forward\<close> changes the stored mask: a layer built without a mask
  holds the mask of the call afterwards. And a layer with batch normalisation in training
  mode has other buffers after a call that returns.
\<close>

theorem forward_stored_mask_counterexample:
  "mask (snd (EGNNLayer_forward (demo_layer ''add'' None) [[1], [2]] [(0, 1)] [[1]]
            (Some [False, True])))
     \<noteq> mask (demo_layer ''add'' None) \<and>
   \<not> isl (fst (EGNNLayer_forward bn_layer [[1], [2]] [(0, 1), (1, 0)] [[1], [1]] None)) \<and>
   mlp_msg (snd (EGNNLayer_forward bn_layer [[1], [2]] [(0, 1), (1, 0)] [[1], [1]] None))
     \<noteq> mlp_msg bn_layer"
proof -
  have a: "mask (snd (EGNNLayer_forward (demo_layer ''add'' None) [[1], [2]] [(0, 1)] [[1]]
            (Some [False, True]))) \<noteq> mask (demo_layer ''add'' None)"
    by (simp add: EGNNLayer_forward_frame(2) demo_layer_def)
  have b: "mlp_msg (snd (EGNNLayer_forward bn_layer [[1], [2]] [(0, 1), (1, 0)] [[1], [1]] None))
     \<noteq> mlp_msg bn_layer"
    unfolding bn_forward_buffers by (simp add: bn_layer_def)
  from a bn_forward_returns b show ?thesis by (intro conjI)
qed

text \<open>
  Claim C9, amended. A forward call changes no attribute of the layer or of the model
  other than the stored mask of a layer and, in training mode, the buffers
  \<^verbatim>\<open>running_mean\<close>, \<^verbatim>\<open>running_var\<close> and \<^verbatim>\<open>num_batches_tracked\<close> of batch
  normalisation sub-layers: the layer after a call of \<^verbatim>\<open>EGNNLayer.forward\<close>, and the
  model after a call of \<^verbatim>\<open>EGNN_Full.forward\<close>, equal the ones before once the stored
  masks and these buffers are set aside, whether the call returns or raises. In
  particular no weight, bias or affine parameter changes. A call of a layer with a mask
  leaves that mask as the stored mask of the layer.
\<close>

theorem forward_changes_only_mask_and_buffers:
  "forget_layer (snd (EGNNLayer_forward self h edge_index distances msk)) = forget_layer self \<and>
   mask (snd (EGNNLayer_forward self h edge_index distances (Some m))) = Some m \<and>
   forget_model (snd (EGNN_Full_forward model batch)) = forget_model model"
  by (simp add: EGNNLayer_forward_frame EGNN_Full_forward_frame)

section \<open>The default mask of a layer\<close>

text \<open>
  Claim C3 says that a layer built with a default mask uses it when \<^verbatim>\<open>forward\<close> is
  called without a mask. \<^verbatim>\<open>forward\<close> assigns its argument to \<^verbatim>\<open>self.mask\<close> also
  when the argument is \<^verbatim>\<open>None\<close>, so the default is overwritten before \<open>update\<close>
  reads it. The layer below is built with the default mask \<open>[False, True]\<close>; called
  without a mask it returns the updated embedding \<open>[3]\<close> for node \<open>0\<close>, not the
  node's embedding \<open>[1]\<close>, and holds no mask afterwards.
\<close>

theorem default_mask_dropped:
  "EGNNLayer_init lib_aggr ones_rng 0 1 ''relu'' ''none'' ''add'' None None (Some [False, True])
     = Inr (demo_layer ''add'' (Some [False, True]), 11) \<and>
   mask (demo_layer ''add'' (Some [False, True])) = Some [False, True] \<and>
   EGNNLayer_forward (demo_layer ''add'' (Some [False, True])) [[1], [2]] [(0, 1)] [[1]] None
     = (Inr [[3], [10]], demo_layer ''add'' None)"
proof -
  have ag: "''add'' = ''add'' \<or> ''add'' = ''sum''" by simp
  have i: "EGNNLayer_init lib_aggr ones_rng 0 1 ''relu'' ''none'' ''add'' None None
             (Some [False, True]) = Inr (demo_layer ''add'' (Some [False, True]), 11)"
    using demo_layer_init [OF ag, of 0 "Some [False, True]"] by simp
  have m: "mask (demo_layer ''add'' (Some [False, True])) = Some [False, True]"
    by (simp add: demo_layer_def)
  have f: "EGNNLayer_forward (demo_layer ''add'' (Some [False, True])) [[1], [2]] [(0, 1)] [[1]]
             None = (Inr [[3], [10]], demo_layer ''add'' None)"
    unfolding demo_layer_forward by simp
  from i m f show ?thesis by (intro conjI)
qed

section \<open>Masked nodes in the layer loop\<close>

text \<open>
  Claim C1 says that a node whose mask entry is false has, after each layer step, the
  embedding it had before, with and without residual connections. With residual
  connections the step adds the layer's result, which for such a node is its own embedding,
  to the embedding: node \<open>0\<close> below goes from \<open>[1]\<close> to \<open>[2]\<close>. Without them the
  embedding stays \<open>[1]\<close>.
\<close>

theorem residual_step_doubles_frozen_node:
  "conv_step True (demo_layer ''sum'' None) [[1], [2]] [(0, 1)] [[1]] (Some [False, True])
     = (Inr [[2], [12]], demo_layer ''sum'' (Some [False, True])) \<and>
   conv_step False (demo_layer ''sum'' None) [[1], [2]] [(0, 1)] [[1]] (Some [False, True])
     = (Inr [[1], [10]], demo_layer ''sum'' (Some [False, True]))"
  unfolding conv_step_def demo_layer_forward
  by (simp add: torch_where_def tensor_add_def same_shape_def vadd_def)

section \<open>The run of the layer loop\<close>

text \<open>
  A pass through the loop that returns has a sequence of embeddings \<open>hs\<close>, one before
  each layer and one after the last, each obtained from the one before by one step of
  the loop, with the same edges, distances and mask at every step.
\<close>

lemma conv_loop_run:
  "conv_loop res cs h ei d m = (Inr h1, cs1) \<Longrightarrow>
   \<exists>hs. length hs = Suc (length cs) \<and> hs ! 0 = h \<and> hs ! length cs = h1 \<and>
     (\<forall>k<length cs. fst (conv_step res (cs ! k) (hs ! k) ei d m) = Inr (hs ! Suc k))"
proof (induction cs arbitrary: h cs1)
  case Nil
  then show ?case by (intro exI [of _ "[h]"]) simp
next
  case (Cons c cs)
  obtain r c1 where step: "conv_step res c h ei d m = (r, c1)"
    by (cases "conv_step res c h ei d m")
  from Cons.prems step obtain h' where r: "r = Inr h'"
    by (cases r) auto
  from Cons.prems step r have "fst (conv_loop res cs h' ei d m) = Inr h1"
    by (simp add: conv_loop_Cons_Inr del: conv_loop.simps)
  then have "conv_loop res cs h' ei d m = (Inr h1, snd (conv_loop res cs h' ei d m))"
    by (metis prod.collapse)
  from Cons.IH [OF this] obtain hs where hs: "length hs = Suc (length cs)" "hs ! 0 = h'"
    "hs ! length cs = h1"
    "\<forall>k<length cs. fst (conv_step res (cs ! k) (hs ! k) ei d m) = Inr (hs ! Suc k)"
    by blast
  have "\<forall>k<length (c # cs).
          fst (conv_step res ((c # cs) ! k) ((h # hs) ! k) ei d m) = Inr ((h # hs) ! Suc k)"
  proof (intro allI impI)
    fix k assume "k < length (c # cs)"
    then show "fst (conv_step res ((c # cs) ! k) ((h # hs) ! k) ei d m) = Inr ((h # hs) ! Suc k)"
      using step r hs by (cases k) auto
  qed
  with hs show ?case by (intro exI [of _ "h # hs"]) simp
qed

lemma vadd_self: "vadd v v = map ((*) 2) v"
  by (induction v) (simp_all add: vadd_def)

lemma conv_step_InrE:
  assumes "fst (conv_step res c h ei d m) = Inr h'"
  obtains u c1 where "EGNNLayer_forward c h ei d m = (Inr u, c1)"
    and "(if res then tensor_add h u else Inr u) = Inr h'"
proof -
  obtain r c1 where fw: "EGNNLayer_forward c h ei d m = (r, c1)"
    by (cases "EGNNLayer_forward c h ei d m")
  from assms fw obtain u where "r = Inr u" "(if res then tensor_add h u else Inr u) = Inr h'"
    by (cases r) (auto simp: conv_step_def)
  with fw that show ?thesis by blast
qed

lemma forward_frozen_row:
  assumes fw: "EGNNLayer_forward self h ei d (Some m) = (Inr out, self1)"
    and i: "i < length h" and off: "\<not> m ! i"
  shows "out ! i = h ! i" and "length out = length h"
proof -
  from fw obtain upd_out where wh: "torch_where m upd_out h = Inr out"
    by (auto elim: EGNNLayer_forward_InrE)
  from torch_where_nth [OF wh i] off show "out ! i = h ! i" by simp
  from torch_where_length(1) [OF wh] show "length out = length h" .
qed

lemma conv_step_frozen:
  assumes step: "fst (conv_step res c h ei d (Some m)) = Inr h'"
    and i: "i < length h" and off: "\<not> m ! i"
  shows "h' ! i = (if res then map ((*) 2) (h ! i) else h ! i)" and "length h' = length h"
proof -
  from step obtain u c1 where fw: "EGNNLayer_forward c h ei d (Some m) = (Inr u, c1)"
    and h': "(if res then tensor_add h u else Inr u) = Inr h'"
    by (rule conv_step_InrE)
  note row = forward_frozen_row [OF fw i off]
  show "h' ! i = (if res then map ((*) 2) (h ! i) else h ! i)"
  proof (cases res)
    case True
    with h' have "h' = map2 vadd h u" by (simp add: tensor_add_def split: if_splits)
    with i row have "h' ! i = vadd (h ! i) (h ! i)" by simp
    with True show ?thesis by (simp add: vadd_self)
  next
    case False
    with h' row show ?thesis by simp
  qed
  show "length h' = length h"
    using h' row(2) by (auto simp: tensor_add_def split: if_splits)
qed

lemma run_frozen:
  assumes run: "\<forall>k<n. fst (conv_step True (cs ! k) (hs ! k) ei d (Some m)) = Inr (hs ! Suc k)"
    and i: "i < length (hs ! 0)" and off: "\<not> m ! i"
  shows "k \<le> n \<Longrightarrow> length (hs ! k) = length (hs ! 0) \<and> hs ! k ! i = map ((*) (2 ^ k)) (hs ! 0 ! i)"
proof (induction k)
  case 0
  show ?case by simp
next
  case (Suc k)
  then have k: "k < n" and len: "length (hs ! k) = length (hs ! 0)"
    and row: "hs ! k ! i = map ((*) (2 ^ k)) (hs ! 0 ! i)"
    by simp_all
  from run k have step: "fst (conv_step True (cs ! k) (hs ! k) ei d (Some m)) = Inr (hs ! Suc k)"
    by simp
  from i len have i': "i < length (hs ! k)" by simp
  from conv_step_frozen [OF step i' off] len row show ?case
    by (simp add: o_def mult.assoc)
qed

lemma make_convs_length:
  "make_convs resolver rng p n d act nrm ag rff_dim rff_sigma msk = Inr (cs, p2) \<Longrightarrow>
   length cs = n"
  by (induction n arbitrary: p cs p2) (auto split: sum.splits prod.splits)

lemma EGNN_Full_init_InrE:
  assumes "EGNN_Full_init resolver rng p dep hid nf outf act nrm ag pl res rff_dim rff_sigma msk
             = Inr (model, p')"
  obtains W0 b0 W1 b1 W2 b2 where
    "length (convs model) = dep" "residual model = res" "depth model = dep"
    "out_features_full model = outf"
    "emb_in model = Linear W0 b0"
    "pred model = [Linear W1 b1, ReLU, Linear W2 b2]"
    "length W2 = outf" "length b2 = outf"
    "dict_get pool_table pl = Inr (pool model)"
  using assms
  by (auto simp: EGNN_Full_init_def nn_Linear_def length_randn
      split: sum.splits prod.splits dest: make_convs_length)

lemma EGNN_Full_forward_InrE:
  assumes "EGNN_Full_forward model batch = (Inr out, model1)"
  obtains h0 D hf cs pooled where
    "fst (module_forward (emb_in model) (batch_x batch)) = Inr h0"
    "edge_distances (batch_pos batch) (batch_edge_index batch) = Inr D"
    "conv_loop (residual model) (convs model) h0 (batch_edge_index batch) D (batch_mask batch)
       = (Inr hf, cs)"
    "pool_forward (pool model) hf (batch_batch batch) = Inr pooled"
    "fst (Sequential_forward (pred model) pooled) = Inr out"
  using assms
  by (auto simp: EGNN_Full_forward_def split: sum.splits prod.splits)

lemma F_linear_length: "F_linear x W = Inr y \<Longrightarrow> length y = length x"
  by (auto simp: F_linear_def split: if_splits)

lemma module_forward_length: "fst (module_forward m x) = Inr y \<Longrightarrow> length y = length x"
  by (cases m) (auto simp: Let_def split: sum.splits if_splits dest: F_linear_length)

section \<open>Masked nodes under residual connections\<close>

text \<open>
  Claim C10. When a model built with residual connections runs on a batch with a mask
  and returns, every layer step sets the embedding of a node whose mask entry is false
  to twice what it was before the step, and after all \<open>depth\<close> layers that
  embedding is \<open>2 ^ depth\<close> times the node's row of \<^verbatim>\<open>emb_in(x)\<close>.
\<close>

theorem residual_frozen_node_doubles:
  assumes init: "EGNN_Full_init resolver rng p dep hid nf outf act nrm ag pl True rff_dim
                   rff_sigma msk = Inr (model, p')"
    and fw: "EGNN_Full_forward model batch = (Inr out, model1)"
    and m: "batch_mask batch = Some m"
    and i: "i < length (batch_x batch)" and off: "\<not> m ! i"
  shows "\<exists>D hs. edge_distances (batch_pos batch) (batch_edge_index batch) = Inr D \<and>
           length hs = Suc dep \<and>
           fst (module_forward (emb_in model) (batch_x batch)) = Inr (hs ! 0) \<and>
           (\<forall>k<dep. fst (conv_step True (convs model ! k) (hs ! k) (batch_edge_index batch) D
                           (Some m)) = Inr (hs ! Suc k) \<and>
                     hs ! Suc k ! i = map ((*) 2) (hs ! k ! i)) \<and>
           hs ! dep ! i = map ((*) (2 ^ dep)) (hs ! 0 ! i) \<and>
           (\<exists>pooled. pool_forward (pool model) (hs ! dep) (batch_batch batch) = Inr pooled \<and>
              fst (Sequential_forward (pred model) pooled) = Inr out)"
proof -
  from init have len: "length (convs model) = dep" and res: "residual model = True"
    by (auto elim: EGNN_Full_init_InrE)
  from fw obtain h0 D hf cs pooled where
    h0: "fst (module_forward (emb_in model) (batch_x batch)) = Inr h0"
    and D: "edge_distances (batch_pos batch) (batch_edge_index batch) = Inr D"
    and loop: "conv_loop (residual model) (convs model) h0 (batch_edge_index batch) D
                 (batch_mask batch) = (Inr hf, cs)"
    and pooled: "pool_forward (pool model) hf (batch_batch batch) = Inr pooled"
    and out: "fst (Sequential_forward (pred model) pooled) = Inr out"
    by (rule EGNN_Full_forward_InrE)
  from conv_loop_run [OF loop [unfolded res m]] len obtain hs where
    hs: "length hs = Suc dep" "hs ! 0 = h0" "hs ! dep = hf"
    and run: "\<forall>k<dep. fst (conv_step True (convs model ! k) (hs ! k) (batch_edge_index batch) D
                           (Some m)) = Inr (hs ! Suc k)"
    by auto
  from module_forward_length [OF h0] i hs(2) have i0: "i < length (hs ! 0)" by simp
  note frozen = run_frozen [OF run i0 off]
  have steps: "\<forall>k<dep. fst (conv_step True (convs model ! k) (hs ! k) (batch_edge_index batch) D
                           (Some m)) = Inr (hs ! Suc k) \<and>
                     hs ! Suc k ! i = map ((*) 2) (hs ! k ! i)"
  proof (intro allI impI)
    fix k assume k: "k < dep"
    with run have step: "fst (conv_step True (convs model ! k) (hs ! k) (batch_edge_index batch) D
                           (Some m)) = Inr (hs ! Suc k)" by simp
    from frozen [of k] k i0 have "i < length (hs ! k)" by simp
    from conv_step_frozen(1) [OF step this off] step
    show "fst (conv_step True (convs model ! k) (hs ! k) (batch_edge_index batch) D
                           (Some m)) = Inr (hs ! Suc k) \<and>
          hs ! Suc k ! i = map ((*) 2) (hs ! k ! i)" by simp
  qed
  from frozen [of dep] have "hs ! dep ! i = map ((*) (2 ^ dep)) (hs ! 0 ! i)" by simp
  with D hs h0 steps pooled out show ?thesis by blast
qed

lemma demo_forward_masked:
  "fst (EGNN_Full_forward (demo_model True) (demo_batch (Some [False, True]))) = Inr [[49]]"
  by (simp add: EGNN_Full_forward_def demo_model_def demo_batch_def
      demo_distances [unfolded One_nat_def]
      demo_layer_forward [unfolded One_nat_def] conv_step_def tensor_add_def same_shape_def
      vadd_def F_linear_def dot_def num_graphs_def width_def scatter_sum_def rows_at_def
      torch_where_def)

theorem residual_frozen_node_doubles_witness:
  "EGNN_Full_init lib_aggr ones_rng 0 2 1 1 1 ''relu'' ''none'' ''sum'' ''add'' True None None None
     = Inr (demo_model True, 28) \<and>
   fst (EGNN_Full_forward (demo_model True) (demo_batch (Some [False, True]))) = Inr [[49]] \<and>
   batch_mask (demo_batch (Some [False, True])) = Some [False, True] \<and>
   (0::nat) < length (batch_x (demo_batch (Some [False, True]))) \<and> \<not> [False, True] ! 0 \<and>
   (\<exists>hs. length hs = Suc 2 \<and>
      fst (module_forward (emb_in (demo_model True)) (batch_x (demo_batch (Some [False, True]))))
        = Inr (hs ! 0) \<and>
      hs ! 2 ! 0 = map ((*) (2 ^ 2)) (hs ! 0 ! 0))"
proof -
  let ?b = "demo_batch (Some [False, True])"
  have fw: "EGNN_Full_forward (demo_model True) ?b
      = (Inr [[49]], snd (EGNN_Full_forward (demo_model True) ?b))"
    using demo_forward_masked by (metis prod.collapse)
  have m: "batch_mask ?b = Some [False, True]" by (simp add: demo_batch_def)
  have i: "(0::nat) < length (batch_x ?b)" by (simp add: demo_batch_def)
  have off: "\<not> [False, True] ! 0" by simp
  from residual_frozen_node_doubles [OF demo_model_init fw m i off]
    demo_model_init demo_forward_masked m i off
  show ?thesis by blast
qed

section \<open>The distances of the edges\<close>

lemma sq_diff_commute:
  "map (\<lambda>a. a\<^sup>2) (map2 (-) u v) = map (\<lambda>a. a\<^sup>2) (map2 (-) v (u :: vec))"
proof (induction u arbitrary: v)
  case Nil
  show ?case by simp
next
  case (Cons a u)
  then show ?case by (cases v) (simp_all add: power2_commute)
qed

lemma vec_norm_diff_commute: "vec_norm (map2 (-) u v) = vec_norm (map2 (-) v u)"
  by (simp only: vec_norm_def sq_diff_commute)

lemma edge_distances_nth:
  assumes D: "edge_distances ps ei = Inr D"
  shows "length D = length ei"
    and "k < length ei \<Longrightarrow> D ! k = [vec_norm (map2 (-) (ps ! fst (ei ! k)) (ps ! snd (ei ! k)))]"
proof -
  let ?pr = "map (nth ps) (map fst ei)" and ?pc = "map (nth ps) (map snd ei)"
  from D have eq: "D = map (\<lambda>v. [vec_norm v]) (map2 (map2 (-)) ?pr ?pc)"
    by (auto simp: edge_distances_def index_select_def tensor_sub_def
        split: sum.splits if_splits)
  show "length D = length ei" by (simp add: eq)
  show "D ! k = [vec_norm (map2 (-) (ps ! fst (ei ! k)) (ps ! snd (ei ! k)))]" if "k < length ei"
    using that by (simp add: eq)
qed

text \<open>
  Claim C6. In a forward pass that returns, the distances are one tensor \<open>D\<close>, computed
  from the positions before the loop: entry \<open>k\<close> is the Euclidean norm of the
  difference of the positions of the two ends of edge \<open>k\<close> (in either order, the norm
  being the same). Each of the \<open>depth\<close> layers is called with this same \<open>D\<close>; a
  layer returns an embedding and changes nothing but its stored mask and the buffers of
  its batch normalisation sub-layers, so \<open>D\<close> reaches the next layer as it was.
\<close>

theorem distances_computed_once:
  assumes init: "EGNN_Full_init resolver rng p dep hid nf outf act nrm ag pl res rff_dim
                   rff_sigma msk = Inr (model, p')"
    and fw: "EGNN_Full_forward model batch = (Inr out, model1)"
  shows "\<exists>D hs. edge_distances (batch_pos batch) (batch_edge_index batch) = Inr D \<and>
           length D = length (batch_edge_index batch) \<and>
           (\<forall>k<length (batch_edge_index batch).
              D ! k = [vec_norm (map2 (-) (batch_pos batch ! fst (batch_edge_index batch ! k))
                                          (batch_pos batch ! snd (batch_edge_index batch ! k)))] \<and>
              D ! k = [vec_norm (map2 (-) (batch_pos batch ! snd (batch_edge_index batch ! k))
                                          (batch_pos batch ! fst (batch_edge_index batch ! k)))]) \<and>
           length (convs model) = dep \<and> length hs = Suc dep \<and>
           fst (module_forward (emb_in model) (batch_x batch)) = Inr (hs ! 0) \<and>
           (\<forall>k<dep. \<exists>h_update c1.
              EGNNLayer_forward (convs model ! k) (hs ! k) (batch_edge_index batch) D
                  (batch_mask batch) = (Inr h_update, c1) \<and>
              mask c1 = batch_mask batch \<and>
              forget_layer c1 = forget_layer (convs model ! k) \<and>
              (if res then tensor_add (hs ! k) h_update else Inr h_update) = Inr (hs ! Suc k)) \<and>
           (\<exists>pooled. pool_forward (pool model) (hs ! dep) (batch_batch batch) = Inr pooled \<and>
              fst (Sequential_forward (pred model) pooled) = Inr out)"
proof -
  let ?ei = "batch_edge_index batch" and ?m = "batch_mask batch"
  from init have len: "length (convs model) = dep" and res: "residual model = res"
    by (auto elim: EGNN_Full_init_InrE)
  from fw obtain h0 D hf cs pooled where
    h0: "fst (module_forward (emb_in model) (batch_x batch)) = Inr h0"
    and D: "edge_distances (batch_pos batch) ?ei = Inr D"
    and loop: "conv_loop (residual model) (convs model) h0 ?ei D ?m = (Inr hf, cs)"
    and pooled: "pool_forward (pool model) hf (batch_batch batch) = Inr pooled"
    and out: "fst (Sequential_forward (pred model) pooled) = Inr out"
    by (rule EGNN_Full_forward_InrE)
  from conv_loop_run [OF loop [unfolded res]] len obtain hs where
    hs: "length hs = Suc dep" "hs ! 0 = h0" "hs ! dep = hf"
    and run: "\<forall>k<dep. fst (conv_step res (convs model ! k) (hs ! k) ?ei D ?m) = Inr (hs ! Suc k)"
    by auto
  have calls: "\<forall>k<dep. \<exists>h_update c1.
              EGNNLayer_forward (convs model ! k) (hs ! k) ?ei D ?m = (Inr h_update, c1) \<and>
              mask c1 = ?m \<and>
              forget_layer c1 = forget_layer (convs model ! k) \<and>
              (if res then tensor_add (hs ! k) h_update else Inr h_update) = Inr (hs ! Suc k)"
  proof (intro allI impI)
    fix k assume "k < dep"
    with run have "fst (conv_step res (convs model ! k) (hs ! k) ?ei D ?m) = Inr (hs ! Suc k)"
      by simp
    then obtain u c1 where
      fw1: "EGNNLayer_forward (convs model ! k) (hs ! k) ?ei D ?m = (Inr u, c1)"
      and nxt: "(if res then tensor_add (hs ! k) u else Inr u) = Inr (hs ! Suc k)"
      by (rule conv_step_InrE)
    from fw1 EGNNLayer_forward_frame [of "convs model ! k" "hs ! k" ?ei D ?m]
    have "mask c1 = ?m" "forget_layer c1 = forget_layer (convs model ! k)" by simp_all
    with fw1 nxt show "\<exists>h_update c1.
              EGNNLayer_forward (convs model ! k) (hs ! k) ?ei D ?m = (Inr h_update, c1) \<and>
              mask c1 = ?m \<and>
              forget_layer c1 = forget_layer (convs model ! k) \<and>
              (if res then tensor_add (hs ! k) h_update else Inr h_update) = Inr (hs ! Suc k)"
      by blast
  qed
  have dst: "\<forall>k<length ?ei.
              D ! k = [vec_norm (map2 (-) (batch_pos batch ! fst (?ei ! k))
                                          (batch_pos batch ! snd (?ei ! k)))] \<and>
              D ! k = [vec_norm (map2 (-) (batch_pos batch ! snd (?ei ! k))
                                          (batch_pos batch ! fst (?ei ! k)))]"
    using edge_distances_nth(2) [OF D] by (simp add: vec_norm_diff_commute)
  from D edge_distances_nth(1) [OF D] dst len hs h0 calls pooled out show ?thesis
    by blast
qed

theorem distances_computed_once_witness:
  "EGNN_Full_init lib_aggr ones_rng 0 2 1 1 1 ''relu'' ''none'' ''sum'' ''add'' True None None None
     = Inr (demo_model True, 28) \<and>
   fst (EGNN_Full_forward (demo_model True) (demo_batch None)) = Inr [[57]] \<and>
   (\<exists>D hs. edge_distances (batch_pos (demo_batch None)) (batch_edge_index (demo_batch None))
        = Inr D \<and> D = [[1]] \<and> length hs = Suc 2 \<and>
      (\<exists>u. fst (EGNNLayer_forward (convs (demo_model True) ! 0) (hs ! 0)
                  (batch_edge_index (demo_batch None)) D (batch_mask (demo_batch None))) = Inr u) \<and>
      (\<exists>u. fst (EGNNLayer_forward (convs (demo_model True) ! 1) (hs ! 1)
                  (batch_edge_index (demo_batch None)) D (batch_mask (demo_batch None))) = Inr u))"
proof -
  have fw: "EGNN_Full_forward (demo_model True) (demo_batch None)
      = (Inr [[57]], demo_model True)"
    by (rule demo_model_forward_None)
  have D1: "edge_distances (batch_pos (demo_batch None)) (batch_edge_index (demo_batch None))
      = Inr [[1]]"
    by (simp add: demo_batch_def demo_distances [unfolded One_nat_def])
  from distances_computed_once [OF demo_model_init fw] obtain D hs where
    D: "edge_distances (batch_pos (demo_batch None)) (batch_edge_index (demo_batch None)) = Inr D"
    and hs: "length hs = Suc 2"
    and calls: "\<forall>k<2. \<exists>h_update c1.
              EGNNLayer_forward (convs (demo_model True) ! k) (hs ! k)
                  (batch_edge_index (demo_batch None)) D (batch_mask (demo_batch None))
                = (Inr h_update, c1)"
    by blast
  from D D1 have "D = [[1]]" by simp
  moreover from calls have
    "\<exists>u. fst (EGNNLayer_forward (convs (demo_model True) ! 0) (hs ! 0)
                  (batch_edge_index (demo_batch None)) D (batch_mask (demo_batch None))) = Inr u"
    "\<exists>u. fst (EGNNLayer_forward (convs (demo_model True) ! 1) (hs ! 1)
                  (batch_edge_index (demo_batch None)) D (batch_mask (demo_batch None))) = Inr u"
    by (metis fst_conv zero_less_numeral, metis fst_conv one_less_numeral_iff semiring_norm(76))
  ultimately show ?thesis using demo_model_init fw D hs by auto
qed

section \<open>The shape of the prediction\<close>

lemma num_graphs_partition: "set b = {0..<G} \<Longrightarrow> num_graphs b = G"
proof (cases "b = []")
  case True
  assume "set b = {0..<G}"
  with True show ?thesis by (simp add: num_graphs_def)
next
  case False
  assume part: "set b = {0..<G}"
  with False have G: "0 < G" by (cases G) auto
  then have "Max {0..<G} = G - 1"
    by (intro Max_eqI) auto
  with False part G show ?thesis by (simp add: num_graphs_def)
qed

lemma pool_forward_length:
  "pool_forward pf h b = Inr pooled \<Longrightarrow> length pooled = num_graphs b"
  by (cases pf) (auto simp: length_scatter_sum split: if_splits)

lemma pred_forward_shape:
  assumes "fst (Sequential_forward [Linear W1 b1, ReLU, Linear W2 b2] x) = Inr out"
  shows "length out = length x" and "list_all (\<lambda>r. length r = min (length W2) (length b2)) out"
  using assms
  by (auto simp: F_linear_def vadd_def list_all_iff split: sum.splits if_splits)

text \<open>
  Claim C7. For a batch whose graph ids are \<open>0, \<dots>, G - 1\<close>, a forward pass that
  returns gives \<open>G\<close> rows of \<open>out_features\<close> entries each: the embeddings after the
  last layer are pooled per graph, and the pooled rows go through the prediction head
  \<^verbatim>\<open>Linear\<close>, \<^verbatim>\<open>ReLU\<close>, \<^verbatim>\<open>Linear\<close>.
\<close>

theorem forward_output_shape:
  assumes init: "EGNN_Full_init resolver rng p dep hid nf outf act nrm ag pl res rff_dim
                   rff_sigma msk = Inr (model, p')"
    and fw: "EGNN_Full_forward model batch = (Inr out, model1)"
    and part: "set (batch_batch batch) = {0..<G}"
  shows "length out = G \<and> list_all (\<lambda>r. length r = outf) out \<and>
         (\<exists>h0 D hf cs pooled W1 b1 W2 b2.
            fst (module_forward (emb_in model) (batch_x batch)) = Inr h0 \<and>
            conv_loop res (convs model) h0 (batch_edge_index batch) D (batch_mask batch)
              = (Inr hf, cs) \<and>
            pool_forward (pool model) hf (batch_batch batch) = Inr pooled \<and>
            pred model = [Linear W1 b1, ReLU, Linear W2 b2] \<and>
            fst (Sequential_forward [Linear W1 b1, ReLU, Linear W2 b2] pooled) = Inr out)"
proof -
  from init obtain W1 b1 W2 b2 where res: "residual model = res"
    and pred: "pred model = [Linear W1 b1, ReLU, Linear W2 b2]"
    and W2: "length W2 = outf" and b2: "length b2 = outf"
    by (rule EGNN_Full_init_InrE)
  from fw obtain h0 D hf cs pooled where
    h0: "fst (module_forward (emb_in model) (batch_x batch)) = Inr h0"
    and loop: "conv_loop (residual model) (convs model) h0 (batch_edge_index batch) D
                 (batch_mask batch) = (Inr hf, cs)"
    and pooled: "pool_forward (pool model) hf (batch_batch batch) = Inr pooled"
    and out: "fst (Sequential_forward (pred model) pooled) = Inr out"
    by (rule EGNN_Full_forward_InrE)
  note shape = pred_forward_shape [OF out [unfolded pred]]
  from shape(1) pool_forward_length [OF pooled] num_graphs_partition [OF part]
  have "length out = G" by simp
  moreover from shape(2) W2 b2 have "list_all (\<lambda>r. length r = outf) out" by simp
  ultimately show ?thesis using h0 loop [unfolded res] pooled pred out [unfolded pred]
    by blast
qed

theorem forward_output_shape_witness:
  "EGNN_Full_init lib_aggr ones_rng 0 2 1 1 1 ''relu'' ''none'' ''sum'' ''add'' True None None None
     = Inr (demo_model True, 28) \<and>
   EGNN_Full_forward (demo_model True) (demo_batch None) = (Inr [[57]], demo_model True) \<and>
   set (batch_batch (demo_batch None)) = {0..<1} \<and>
   length [[57::real]] = 1 \<and> list_all (\<lambda>r. length r = 1) [[57::real]]"
proof -
  have part: "set (batch_batch (demo_batch None)) = {0..<1}"
    by (auto simp: demo_batch_def)
  from forward_output_shape [OF demo_model_init demo_model_forward_None part]
    demo_model_init demo_model_forward_None part
  show ?thesis by blast
qed

section \<open>Unknown names at construction\<close>

lemma activation_lookup:
  "dict_get activation_table a =
     (if a = ''swish'' then Inr SiLU else if a = ''relu'' then Inr ReLU else Inl (KeyError a))"
  by (simp add: dict_get_def activation_table_def)

lemma norm_lookup:
  "dict_get norm_table a =
     (if a = ''layer'' then Inr LayerNorm_cls else if a = ''batch'' then Inr BatchNorm1d_cls
      else if a = ''none'' then Inr Identity_cls else Inl (KeyError a))"
  by (simp add: dict_get_def norm_table_def)

lemma pool_lookup:
  "dict_get pool_table a =
     (if a = ''mean'' then Inr global_mean_pool else if a = ''add'' then Inr global_add_pool
      else Inl (KeyError a))"
  by (simp add: dict_get_def pool_table_def)

lemma EGNNLayer_init_bad_activation:
  assumes "resolve_aggr resolver ag = Inr reduce" and "act \<notin> {''relu'', ''swish''}"
  shows "EGNNLayer_init resolver rng p d act nrm ag rff_dim rff_sigma msk = Inl (KeyError act)"
  using assms by (auto simp: EGNNLayer_init_def activation_lookup)

lemma EGNNLayer_init_bad_norm:
  assumes "resolve_aggr resolver ag = Inr reduce" and "act \<in> {''relu'', ''swish''}"
    and "nrm \<notin> {''layer'', ''batch'', ''none''}"
  shows "EGNNLayer_init resolver rng p d act nrm ag rff_dim rff_sigma msk = Inl (KeyError nrm)"
  using assms by (auto simp: EGNNLayer_init_def activation_lookup norm_lookup)

lemma EGNNLayer_init_ok:
  assumes ag: "resolve_aggr resolver ag = Inr reduce" and rff: "rff_dim \<noteq> None \<longrightarrow> rff_sigma \<noteq> None"
    and act: "act \<in> {''relu'', ''swish''}" and nrm: "nrm \<in> {''layer'', ''batch'', ''none''}"
  shows "\<exists>layer p1. EGNNLayer_init resolver rng p d act nrm ag rff_dim rff_sigma msk
                       = Inr (layer, p1)"
proof (cases rff_dim)
  case None
  with ag act nrm show ?thesis
    by (auto simp: EGNNLayer_init_def activation_lookup norm_lookup
        Let_def split_def)
next
  case (Some k)
  with rff obtain s where s: "rff_sigma = Some s" by auto
  from Some s ag act nrm show ?thesis
    by (auto simp: EGNNLayer_init_def activation_lookup norm_lookup
        RFF_init_def Let_def split_def)
qed

lemma EGNNLayer_init_no_sigma:
  assumes ag: "resolve_aggr resolver ag = Inr reduce"
    and act: "act \<in> {''relu'', ''swish''}" and nrm: "nrm \<in> {''layer'', ''batch'', ''none''}"
  shows "EGNNLayer_init resolver rng p d act nrm ag (Some k) None msk = Inl TypeError"
  using assms
  by (auto simp: EGNNLayer_init_def activation_lookup norm_lookup
      RFF_init_def Let_def split_def)

lemma make_convs_ok:
  assumes ag: "resolve_aggr resolver ag = Inr reduce" and rff: "rff_dim \<noteq> None \<longrightarrow> rff_sigma \<noteq> None"
    and act: "act \<in> {''relu'', ''swish''}" and nrm: "nrm \<in> {''layer'', ''batch'', ''none''}"
  shows "\<exists>cs p2. make_convs resolver rng p n d act nrm ag rff_dim rff_sigma msk = Inr (cs, p2)"
proof (induction n arbitrary: p)
  case 0
  show ?case by simp
next
  case (Suc n)
  from EGNNLayer_init_ok [OF ag rff act nrm] obtain layer p1 where
    "EGNNLayer_init resolver rng p d act nrm ag rff_dim rff_sigma msk = Inr (layer, p1)"
    by blast
  moreover from Suc [of p1] obtain cs p2 where
    "make_convs resolver rng p1 n d act nrm ag rff_dim rff_sigma msk = Inr (cs, p2)" by blast
  ultimately show ?case by simp
qed

lemma make_convs_KeyError:
  assumes ag: "resolve_aggr resolver ag = Inr reduce"
    and bad: "act \<notin> {''relu'', ''swish''} \<or> nrm \<notin> {''layer'', ''batch'', ''none''}"
  shows "\<exists>k. make_convs resolver rng p (Suc n) d act nrm ag rff_dim rff_sigma msk
                = Inl (KeyError k)"
proof (cases "act \<in> {''relu'', ''swish''}")
  case True
  with bad have "nrm \<notin> {''layer'', ''batch'', ''none''}" by blast
  from EGNNLayer_init_bad_norm [OF ag True this] show ?thesis by simp
next
  case False
  from EGNNLayer_init_bad_activation [OF ag False] show ?thesis by simp
qed

text \<open>
  Claim C8 says that an unknown activation, normalisation or pooling name makes
  construction fail with the lookup error, and that construction succeeds for every
  known name. The names are not all that construction depends on. The constructor of
  the layer passes \<^verbatim>\<open>RFF_sigma\<close>, whose default is \<^verbatim>\<open>None\<close>, on to \<^verbatim>\<open>RFF\<close>, where
  \<^verbatim>\<open>torch.randn(...) * sigma\<close> raises \<^verbatim>\<open>TypeError\<close>: with \<^verbatim>\<open>RFF_dim = 4\<close> and no
  \<^verbatim>\<open>RFF_sigma\<close> a layer with known names is not built, and a model with an unknown
  pooling name fails with \<^verbatim>\<open>TypeError\<close>, in its first layer, before the pooling name
  is looked up.
\<close>

theorem construction_without_sigma_counterexample:
  "EGNNLayer_init lib_aggr ones_rng 0 1 ''relu'' ''layer'' ''add'' (Some 4) None None
     = Inl TypeError \<and>
   EGNN_Full_init lib_aggr ones_rng 0 2 1 1 1 ''relu'' ''layer'' ''sum'' ''max'' True (Some 4)
     None None = Inl TypeError"
proof -
  have r: "resolve_aggr lib_aggr ''add'' = Inr sum_rows" "resolve_aggr lib_aggr ''sum'' = Inr sum_rows"
    by (simp_all add: resolve_aggr_def lib_aggr_sum)
  have a: "EGNNLayer_init lib_aggr ones_rng p 1 ''relu'' ''layer'' ag (Some 4) None None
      = Inl TypeError" if "resolve_aggr lib_aggr ag = Inr sum_rows" for p ag
    using that by (rule EGNNLayer_init_no_sigma) simp_all
  have b: "EGNN_Full_init lib_aggr ones_rng 0 2 1 1 1 ''relu'' ''layer'' ''sum'' ''max'' True
      (Some 4) None None = Inl TypeError"
    by (simp add: EGNN_Full_init_def split_def numeral_2_eq_2
        a [OF r(2), unfolded One_nat_def])
  from a [OF r(1), of 0] b show ?thesis by (intro conjI)
qed

text \<open>
  Claim C8, amended. Let the aggregation name be one that the graph library resolves
  and let \<^verbatim>\<open>RFF_sigma\<close> be given whenever \<^verbatim>\<open>RFF_dim\<close> is. Then constructing an
  \<^verbatim>\<open>EGNNLayer\<close> raises \<^verbatim>\<open>KeyError\<close> on the activation name when it is not
  \<^verbatim>\<open>relu\<close> or \<^verbatim>\<open>swish\<close>, raises \<^verbatim>\<open>KeyError\<close> on the normalisation name when
  the activation name is known and the normalisation name is not \<^verbatim>\<open>layer\<close>,
  \<^verbatim>\<open>batch\<close> or \<^verbatim>\<open>none\<close>, and returns a layer when both are known. Constructing an
  \<^verbatim>\<open>EGNN_Full\<close> with a pooling name that is not \<^verbatim>\<open>mean\<close> or \<^verbatim>\<open>add\<close> raises
  \<^verbatim>\<open>KeyError\<close>: on the pooling name when the layers can be built or there are none,
  and on the name that stopped the first layer otherwise, since the layers are built
  before the pooling name is looked up. With all three names known it returns a model.
\<close>

theorem construction_lookup_errors:
  assumes ag: "resolve_aggr resolver ag = Inr reduce" and rff: "rff_dim \<noteq> None \<longrightarrow> rff_sigma \<noteq> None"
  shows "(act \<notin> {''relu'', ''swish''} \<longrightarrow>
            EGNNLayer_init resolver rng p d act nrm ag rff_dim rff_sigma msk
              = Inl (KeyError act)) \<and>
         (act \<in> {''relu'', ''swish''} \<and> nrm \<notin> {''layer'', ''batch'', ''none''} \<longrightarrow>
            EGNNLayer_init resolver rng p d act nrm ag rff_dim rff_sigma msk
              = Inl (KeyError nrm)) \<and>
         (act \<in> {''relu'', ''swish''} \<and> nrm \<in> {''layer'', ''batch'', ''none''} \<longrightarrow>
            (\<exists>layer p1. EGNNLayer_init resolver rng p d act nrm ag rff_dim rff_sigma msk
                          = Inr (layer, p1))) \<and>
         (pl \<notin> {''mean'', ''add''} \<longrightarrow>
            (\<exists>k. EGNN_Full_init resolver rng p dep hid nf outf act nrm ag pl res rff_dim
                    rff_sigma msk = Inl (KeyError k))) \<and>
         (pl \<notin> {''mean'', ''add''} \<and>
          (dep = 0 \<or> act \<in> {''relu'', ''swish''} \<and> nrm \<in> {''layer'', ''batch'', ''none''}) \<longrightarrow>
            EGNN_Full_init resolver rng p dep hid nf outf act nrm ag pl res rff_dim rff_sigma msk
              = Inl (KeyError pl)) \<and>
         (pl \<in> {''mean'', ''add''} \<and> act \<in> {''relu'', ''swish''} \<and>
          nrm \<in> {''layer'', ''batch'', ''none''} \<longrightarrow>
            (\<exists>model p1. EGNN_Full_init resolver rng p dep hid nf outf act nrm ag pl res rff_dim
                           rff_sigma msk = Inr (model, p1)))"
proof -
  let ?A = "act \<in> {''relu'', ''swish''}" and ?N = "nrm \<in> {''layer'', ''batch'', ''none''}"
  let ?init = "EGNN_Full_init resolver rng p dep hid nf outf act nrm ag pl res rff_dim
                 rff_sigma msk"
  let ?p1 = "snd (nn_Linear rng p nf hid)"
  let ?mk = "make_convs resolver rng ?p1 dep hid act nrm ag rff_dim rff_sigma msk"
  have mk_ok: "\<exists>cs p2. ?mk = Inr (cs, p2)" if "dep = 0 \<or> ?A \<and> ?N"
  proof (cases "dep = 0")
    case True
    then show ?thesis by simp
  next
    case False
    with that have "?A" "?N" by blast+
    from make_convs_ok [OF ag rff this] show ?thesis .
  qed
  have good_pool: "\<exists>model p1. ?init = Inr (model, p1)" if "pl \<in> {''mean'', ''add''}" "?A" "?N"
  proof -
    from mk_ok that obtain cs p2 where "?mk = Inr (cs, p2)" by blast
    with that(1) show ?thesis
      by (auto simp: EGNN_Full_init_def split_def Let_def pool_lookup)
  qed
  have bad_pool: "?init = Inl (KeyError pl)"
    if "pl \<notin> {''mean'', ''add''}" "dep = 0 \<or> ?A \<and> ?N"
  proof -
    from mk_ok that(2) obtain cs p2 where "?mk = Inr (cs, p2)" by blast
    with that(1) show ?thesis
      by (auto simp: EGNN_Full_init_def split_def Let_def pool_lookup)
  qed
  have any_pool: "\<exists>k. ?init = Inl (KeyError k)" if pl: "pl \<notin> {''mean'', ''add''}"
  proof (cases "dep = 0 \<or> ?A \<and> ?N")
    case True
    from bad_pool [OF pl True] show ?thesis by blast
  next
    case False
    then obtain n where n: "dep = Suc n" and bad: "\<not> ?A \<or> \<not> ?N"
      by (cases dep) auto
    from make_convs_KeyError [OF ag bad, of rng ?p1 n hid rff_dim rff_sigma msk]
    obtain k where "?mk = Inl (KeyError k)" unfolding n by blast
    then show ?thesis by (auto simp: EGNN_Full_init_def split_def Let_def)
  qed
  show ?thesis
  proof (intro conjI impI)
    assume "act \<notin> {''relu'', ''swish''}"
    with ag show "EGNNLayer_init resolver rng p d act nrm ag rff_dim rff_sigma msk
        = Inl (KeyError act)"
      by (rule EGNNLayer_init_bad_activation)
  next
    assume "?A \<and> nrm \<notin> {''layer'', ''batch'', ''none''}"
    then show "EGNNLayer_init resolver rng p d act nrm ag rff_dim rff_sigma msk
        = Inl (KeyError nrm)"
      using EGNNLayer_init_bad_norm [OF ag] by blast
  next
    assume "?A \<and> ?N"
    then show "\<exists>layer p1. EGNNLayer_init resolver rng p d act nrm ag rff_dim rff_sigma msk
                          = Inr (layer, p1)"
      using EGNNLayer_init_ok [OF ag rff] by blast
  next
    assume "pl \<notin> {''mean'', ''add''}"
    then show "\<exists>k. ?init = Inl (KeyError k)" by (rule any_pool)
  next
    assume "pl \<notin> {''mean'', ''add''} \<and> (dep = 0 \<or> ?A \<and> ?N)"
    then show "?init = Inl (KeyError pl)" using bad_pool by blast
  next
    assume "pl \<in> {''mean'', ''add''} \<and> ?A \<and> ?N"
    then show "\<exists>model p1. ?init = Inr (model, p1)" using good_pool by blast
  qed
qed

theorem construction_lookup_errors_witness:
  "resolve_aggr lib_aggr ''mean'' = Inr mean_rows \<and>
   EGNNLayer_init lib_aggr ones_rng 0 1 ''tanh'' ''layer'' ''mean'' (Some 4) (Some 1) None
     = Inl (KeyError ''tanh'') \<and>
   EGNNLayer_init lib_aggr ones_rng 0 1 ''relu'' ''group'' ''mean'' (Some 4) (Some 1) None
     = Inl (KeyError ''group'') \<and>
   (\<exists>layer p1. EGNNLayer_init lib_aggr ones_rng 0 1 ''swish'' ''batch'' ''mean'' (Some 4) (Some 1)
                  None = Inr (layer, p1)) \<and>
   EGNN_Full_init lib_aggr ones_rng 0 2 1 1 1 ''relu'' ''none'' ''mean'' ''max'' True (Some 4)
     (Some 1) None = Inl (KeyError ''max'') \<and>
   (\<exists>model p1. EGNN_Full_init lib_aggr ones_rng 0 2 1 1 1 ''relu'' ''none'' ''mean'' ''mean'' True
                   (Some 4) (Some 1) None = Inr (model, p1))"
proof -
  have ag: "resolve_aggr lib_aggr ''mean'' = Inr mean_rows"
    by (simp add: resolve_aggr_def lib_aggr_def)
  have rff: "Some (4::nat) \<noteq> None \<longrightarrow> Some (1::real) \<noteq> None" by simp
  note inst = construction_lookup_errors [OF ag rff]
  have a: "EGNNLayer_init lib_aggr ones_rng 0 1 ''tanh'' ''layer'' ''mean'' (Some 4) (Some 1) None
      = Inl (KeyError ''tanh'')"
    using inst [where act = "''tanh''" and nrm = "''layer''" and rng = ones_rng and p = 0
        and d = 1 and msk = None] by simp
  have b: "EGNNLayer_init lib_aggr ones_rng 0 1 ''relu'' ''group'' ''mean'' (Some 4) (Some 1) None
      = Inl (KeyError ''group'')"
    using inst [where act = "''relu''" and nrm = "''group''" and rng = ones_rng and p = 0
        and d = 1 and msk = None] by simp
  have c: "\<exists>layer p1. EGNNLayer_init lib_aggr ones_rng 0 1 ''swish'' ''batch'' ''mean'' (Some 4)
                  (Some 1) None = Inr (layer, p1)"
    using inst [where act = "''swish''" and nrm = "''batch''" and rng = ones_rng and p = 0
        and d = 1 and msk = None] by simp
  have d: "EGNN_Full_init lib_aggr ones_rng 0 2 1 1 1 ''relu'' ''none'' ''mean'' ''max'' True
      (Some 4) (Some 1) None = Inl (KeyError ''max'')"
    using inst [where act = "''relu''" and nrm = "''none''" and pl = "''max''" and rng = ones_rng
        and p = 0 and dep = 2 and hid = 1 and nf = 1 and outf = 1 and res = True and msk = None]
    by simp
  have e: "\<exists>model p1. EGNN_Full_init lib_aggr ones_rng 0 2 1 1 1 ''relu'' ''none'' ''mean''
                   ''mean'' True (Some 4) (Some 1) None = Inr (model, p1)"
    using inst [where act = "''relu''" and nrm = "''none''" and pl = "''mean''" and rng = ones_rng
        and p = 0 and dep = 2 and hid = 1 and nf = 1 and outf = 1 and res = True and msk = None]
    by simp
  from ag a b c d e show ?thesis by (intro conjI)
qed

end
